theory Spec2Isabelle
  imports Complex_Main "HOL-Library.Sublist"
begin

section \<open>Strings\<close>

text \<open>
  A Python \<open>str\<close> is a sequence of Unicode code points; it is modelled as the list of
  its code points.  \<open>u\<close> embeds an ASCII literal.  Python's built-in \<open>str(n)\<close> for an
  integer is the decimal numeral with a leading minus sign for negative values.
\<close>

type_synonym str = "nat list"

definition u :: "string \<Rightarrow> str" where
  "u s = map of_char s"

fun str_nat :: "nat \<Rightarrow> str" where
  "str_nat n = (if n < 10 then [48 + n] else str_nat (n div 10) @ [48 + n mod 10])"

declare str_nat.simps [simp del]

definition str_int :: "int \<Rightarrow> str" where
  "str_int i = (if i < 0 then 45 # str_nat (nat (- i)) else str_nat (nat i))"

text \<open>
  The operator \<open>a in b\<close> on two strings: \<open>a\<close> occurs in \<open>b\<close> as a contiguous run.
\<close>

fun str_in :: "str \<Rightarrow> str \<Rightarrow> bool" where
  "str_in a [] = (a = [])"
| "str_in a (c # cs) = (prefix a (c # cs) \<or> str_in a cs)"

section \<open>Game models\<close>

subsection \<open>Personaje\<close>

text \<open>
  \<open>pygame.Rect\<close>: the integers \<open>x\<close>, \<open>y\<close>, \<open>width\<close> and \<open>height\<close>.  \<open>colliderect\<close> and
  \<open>collidepoint\<close> are pygame's tests: two rectangles overlap when neither is empty and
  their extents intersect on both axes; a point is inside from the left and top edge
  up to, and without, the right and bottom edge.
\<close>

record Rect =
  rect_x :: int
  rect_y :: int
  rect_w :: int
  rect_h :: int

definition colliderect :: "Rect \<Rightarrow> Rect \<Rightarrow> bool" where
  "colliderect a b =
     (if rect_w a = 0 \<or> rect_h a = 0 \<or> rect_w b = 0 \<or> rect_h b = 0 then False
      else min (rect_x a) (rect_x a + rect_w a) < max (rect_x b) (rect_x b + rect_w b) \<and>
           min (rect_y a) (rect_y a + rect_h a) < max (rect_y b) (rect_y b + rect_h b) \<and>
           max (rect_x a) (rect_x a + rect_w a) > min (rect_x b) (rect_x b + rect_w b) \<and>
           max (rect_y a) (rect_y a + rect_h a) > min (rect_y b) (rect_y b + rect_h b))"

definition collidepoint :: "Rect \<Rightarrow> int \<times> int \<Rightarrow> bool" where
  "collidepoint r pt =
     (rect_x r \<le> fst pt \<and> fst pt < rect_x r + rect_w r \<and>
      rect_y r \<le> snd pt \<and> snd pt < rect_y r + rect_h r)"

text \<open>
  The fields of \<open>Personaje.__init__\<close>.  The world position (\<open>self.x\<close>, \<open>self.y\<close>) is
  \<open>pos_x\<close>, \<open>pos_y\<close>; Python floats are modelled as reals.  The sprite and the
  character's own \<open>animation_timer\<close> are only read by the drawing code and are left out.
  \<open>Jugador\<close> and \<open>Enemigo\<close> extend this record, so every method of the base class is
  defined on the record scheme.
\<close>

record personaje =
  nombre :: str
  hp :: int
  hp_max :: int
  atk :: int
  defensa :: int
  nivel :: int
  experiencia :: int
  pos_x :: real
  pos_y :: real
  rect :: Rect
  vivo :: bool
  velocidad :: real
  hit_flash_timer :: real

text \<open>
  \<open>morir\<close> prints one line; the printed lines are the death signal, returned as a list.
\<close>

definition morir :: "'a personaje_scheme \<Rightarrow> str list" where
  "morir p = [nombre p @ u '' ha sido derrotado!'']"

text \<open>
  \<open>recibir_dano\<close> returns the realized damage, the entity after the call and the lines
  printed during the call.
\<close>

definition recibir_dano ::
  "int \<Rightarrow> 'a personaje_scheme \<Rightarrow> int \<times> 'a personaje_scheme \<times> str list" where
  "recibir_dano dano p =
     (let dano_real = max 1 (dano - defensa p div 2);
          p1 = p\<lparr>hp := max 0 (hp p - dano_real)\<rparr>;
          p2 = p1\<lparr>hit_flash_timer := 0.2\<rparr>
      in if hp p2 = 0 \<and> vivo p2
         then (dano_real, p2\<lparr>vivo := False\<rparr>, morir (p2\<lparr>vivo := False\<rparr>))
         else (dano_real, p2, []))"

definition curarse :: "int \<Rightarrow> 'a personaje_scheme \<Rightarrow> 'a personaje_scheme" where
  "curarse cantidad p = p\<lparr>hp := min (hp_max p) (hp p + cantidad)\<rparr>"

text \<open>
  \<open>Personaje.update\<close>: the hit flash runs down and the rectangle follows the position;
  \<open>int(x)\<close> on a float truncates towards zero.
\<close>

definition py_int :: "real \<Rightarrow> int" where
  "py_int r = (if 0 \<le> r then \<lfloor>r\<rfloor> else \<lceil>r\<rceil>)"

definition Personaje_update :: "real \<Rightarrow> 'a personaje_scheme \<Rightarrow> 'a personaje_scheme" where
  "Personaje_update dt p =
     (let p1 = (if hit_flash_timer p > 0 then p\<lparr>hit_flash_timer := hit_flash_timer p - dt\<rparr> else p)
      in p1\<lparr>rect := (rect p1)\<lparr>rect_x := py_int (pos_x p1), rect_y := py_int (pos_y p1)\<rparr>\<rparr>)"

subsection \<open>Objeto\<close>

record objeto =
  obj_nombre :: str
  descripcion :: str
  tipo :: str
  valor :: int
  modificador :: int

text \<open>
  \<open>Objeto.usar\<close>.  \<open>lower\<close> is Python's \<open>str.lower\<close>, which belongs to the runtime and
  is passed in; the second marker is the Spanish word for potion, whose accented
  letter is the code point 243.  The result is the returned flag and the character after the call.
\<close>

definition usar :: "(str \<Rightarrow> str) \<Rightarrow> objeto \<Rightarrow> 'a personaje_scheme \<Rightarrow> bool \<times> 'a personaje_scheme" where
  "usar lower ob p =
     (if tipo ob = u ''consumible''
      then (if str_in (u ''vida'') (lower (obj_nombre ob)) \<or>
               str_in (u ''poci'' @ [243] @ u ''n'') (lower (obj_nombre ob))
            then (True, curarse (modificador ob) p)
            else (False, p))
      else (False, p))"

text \<open>
  \<open>str.lower\<close> on the code points below 256 (Basic Latin and Latin-1 Supplement), where
  it maps each capital letter to the letter 32 places later; used to run \<open>usar\<close> on
  concrete names.
\<close>

definition lower_latin1 :: "str \<Rightarrow> str" where
  "lower_latin1 s =
     map (\<lambda>c. if (65 \<le> c \<and> c \<le> 90) \<or> (192 \<le> c \<and> c \<le> 222 \<and> c \<noteq> 215) then c + 32 else c) s"

subsection \<open>Jugador\<close>

record jugador = personaje +
  clase :: str
  oro :: int
  inventario :: "objeto list"

text \<open>
  \<open>Jugador.atacar\<close>; \<open>r\<close> is the value drawn by \<open>random.random()\<close> in this call.
\<close>

definition Jugador_atacar ::
  "real \<Rightarrow> jugador \<Rightarrow> 'a personaje_scheme \<Rightarrow> int \<times> 'a personaje_scheme \<times> str list" where
  "Jugador_atacar r j objetivo =
     (let dano = atk j;
          dano = (if r < 0.1 then dano * 2 else dano)
      in recibir_dano dano objetivo)"

definition Jugador_subir_nivel :: "jugador \<Rightarrow> jugador" where
  "Jugador_subir_nivel j =
     (let j1 = j\<lparr>nivel := nivel j + 1\<rparr>;
          j2 = j1\<lparr>hp_max := hp_max j1 + 10\<rparr>;
          j3 = j2\<lparr>hp := hp_max j2\<rparr>;
          j4 = j3\<lparr>atk := atk j3 + 2\<rparr>
      in j4\<lparr>defensa := defensa j4 + 1\<rparr>)"

definition mover :: "real \<Rightarrow> real \<Rightarrow> real \<Rightarrow> jugador \<Rightarrow> jugador" where
  "mover dx dy dt j =
     (let j1 = j\<lparr>pos_x := pos_x j + dx * velocidad j * dt\<rparr>
      in j1\<lparr>pos_y := pos_y j1 + dy * velocidad j1 * dt\<rparr>)"

text \<open>
  \<open>Jugador.__init__\<close> with the table \<open>CLASES\<close>; a class name that is not in the table
  raises \<open>KeyError\<close>, which is \<open>None\<close> here.
\<close>

definition CLASES :: "str \<Rightarrow> (int \<times> int \<times> int) option" where
  "CLASES c =
     (if c = u ''Guerrero'' then Some (120, 15, 10)
      else if c = u ''Mago'' then Some (80, 20, 5)
      else if c = u ''Arquero'' then Some (100, 18, 7)
      else None)"

definition Personaje_init :: "str \<Rightarrow> int \<Rightarrow> int \<Rightarrow> int \<Rightarrow> int \<Rightarrow> int \<Rightarrow> personaje" where
  "Personaje_init n h a d px py =
     \<lparr>nombre = n, hp = h, hp_max = h, atk = a, defensa = d, nivel = 1, experiencia = 0,
      pos_x = of_int px, pos_y = of_int py,
      rect = \<lparr>rect_x = px, rect_y = py, rect_w = 50, rect_h = 50\<rparr>,
      vivo = True, velocidad = 300, hit_flash_timer = 0\<rparr>"

definition Jugador_init :: "str \<Rightarrow> str \<Rightarrow> int \<Rightarrow> int \<Rightarrow> jugador option" where
  "Jugador_init n c px py =
     (case CLASES c of
        None \<Rightarrow> None
      | Some (h, a, d) \<Rightarrow>
          Some (personaje.extend (Personaje_init n h a d px py)
                  \<lparr>clase = c, oro = 100, inventario = []\<rparr>))"

subsection \<open>Enemigo\<close>

text \<open>
  The reward dictionary of an enemy; every \<open>Enemigo\<close> the program builds carries both
  keys, \<open>"oro"\<close> and \<open>"experiencia"\<close>.
\<close>

record recompensa_t =
  rec_oro :: int
  rec_experiencia :: int

record enemigo = personaje +
  tipo_enemigo :: str
  recompensa :: recompensa_t
  patron_ataque :: str
  wander_timer :: real
  wander_direction :: "real \<times> real"

definition Enemigo_init ::
  "str \<Rightarrow> int \<Rightarrow> int \<Rightarrow> int \<Rightarrow> str \<Rightarrow> recompensa_t \<Rightarrow> int \<Rightarrow> int \<Rightarrow> enemigo" where
  "Enemigo_init n h a d t rc px py =
     personaje.extend (Personaje_init n h a d px py)
       \<lparr>tipo_enemigo = t, recompensa = rc, patron_ataque = u ''simple'',
        wander_timer = 0, wander_direction = (0, 0)\<rparr>"

definition Enemigo_atacar ::
  "real \<Rightarrow> enemigo \<Rightarrow> 'a personaje_scheme \<Rightarrow> int \<times> 'a personaje_scheme \<times> str list" where
  "Enemigo_atacar r e objetivo =
     (let dano = atk e;
          dano = (if r < 0.1 then dano * 2 else dano)
      in recibir_dano dano objetivo)"

definition Enemigo_subir_nivel :: "enemigo \<Rightarrow> enemigo" where
  "Enemigo_subir_nivel e = e"

text \<open>
  \<open>Enemigo.update\<close>; \<open>azar\<close> holds the two values that \<open>random.uniform(1, 3)\<close> and
  \<open>random.uniform(0, 2 * pi)\<close> return when the wander timer has run out.
\<close>

definition Enemigo_update :: "real \<Rightarrow> real \<times> real \<Rightarrow> enemigo \<Rightarrow> enemigo" where
  "Enemigo_update dt azar e =
     (let e1 = Personaje_update dt e
      in if \<not> vivo e1 then e1
         else
           let e2 = e1\<lparr>wander_timer := wander_timer e1 - dt\<rparr>;
               e3 = (if wander_timer e2 \<le> 0
                     then e2\<lparr>wander_timer := fst azar,
                             wander_direction := (cos (snd azar), sin (snd azar))\<rparr>
                     else e2);
               speed = 50;
               e4 = e3\<lparr>pos_x := pos_x e3 + fst (wander_direction e3) * speed * dt\<rparr>
           in e4\<lparr>pos_y := pos_y e4 + snd (wander_direction e4) * speed * dt\<rparr>)"

definition soltar_recompensa :: "enemigo \<Rightarrow> jugador \<Rightarrow> jugador" where
  "soltar_recompensa e j =
     (let j1 = j\<lparr>experiencia := experiencia j + rec_experiencia (recompensa e)\<rparr>
      in j1\<lparr>oro := oro j1 + rec_oro (recompensa e)\<rparr>)"

subsection \<open>Sequences of calls on one entity\<close>

text \<open>
  A call of \<open>recibir_dano\<close> or of \<open>curarse\<close>; \<open>ejecutar\<close> makes the calls of a list in
  order on one entity and collects the lines that \<open>morir\<close> printed.
\<close>

datatype llamada = Recibir_dano int | Curarse int

fun llamar :: "llamada \<Rightarrow> 'a personaje_scheme \<times> str list \<Rightarrow> 'a personaje_scheme \<times> str list" where
  "llamar (Recibir_dano d) (p, out) = (fst (snd (recibir_dano d p)), out @ snd (snd (recibir_dano d p)))"
| "llamar (Curarse c) (p, out) = (curarse c p, out)"

definition ejecutar :: "llamada list \<Rightarrow> 'a personaje_scheme \<Rightarrow> 'a personaje_scheme \<times> str list" where
  "ejecutar cs p = foldl (\<lambda>s c. llamar c s) (p, []) cs"

text \<open>
  The entity invariant of the specification: \<open>0 \<le> hp \<le> hp_max\<close> and
  \<open>alive == (hp > 0)\<close>.
\<close>

definition entity_inv :: "'a personaje_scheme \<Rightarrow> bool" where
  "entity_inv p = (0 \<le> hp p \<and> hp p \<le> hp_max p \<and> vivo p = (0 < hp p))"

text \<open>Two entities of the program: a warrior and a wolf from the enemy table.\<close>

definition guerrero :: jugador where
  "guerrero = the (Jugador_init (u ''Ana'') (u ''Guerrero'') 640 360)"

definition lobo :: enemigo where
  "lobo = Enemigo_init (u ''Lobo Salvaje'') 40 10 2 (u ''bestia'')
            \<lparr>rec_oro = 20, rec_experiencia = 50\<rparr> 100 100"

section \<open>Game flow\<close>

subsection \<open>Timer, buttons, events\<close>

text \<open>
  \<open>Timer\<close>.  \<open>ticks\<close> is the value of \<open>pygame.time.get_ticks()\<close> at the call, in
  milliseconds.
\<close>

record Timer =
  duration :: real
  start_time :: int
  active :: bool

definition Timer_init :: "real \<Rightarrow> Timer" where
  "Timer_init d = \<lparr>duration = d, start_time = 0, active = False\<rparr>"

definition Timer_start :: "int \<Rightarrow> Timer \<Rightarrow> Timer" where
  "Timer_start ticks t = t\<lparr>start_time := ticks, active := True\<rparr>"

definition Timer_update :: "int \<Rightarrow> Timer \<Rightarrow> bool \<times> Timer" where
  "Timer_update ticks t =
     (if \<not> active t then (False, t)
      else
        let elapsed = of_int (ticks - start_time t) / 1000
        in if elapsed \<ge> duration t then (True, t\<lparr>active := False\<rparr>) else (False, t))"

text \<open>
  A pygame event, reduced to what the handlers read: its type and, for a mouse button
  event, the button number, for a key event the key code.
\<close>

datatype event = MOUSEBUTTONDOWN int | KEYDOWN int | KEYUP int | OTHER_EVENT

text \<open>\<open>Button\<close>; colours and the font belong to drawing.\<close>

record Button =
  button_rect :: Rect
  button_text :: str
  is_hovered :: bool

definition Button_init :: "int \<Rightarrow> int \<Rightarrow> int \<Rightarrow> int \<Rightarrow> str \<Rightarrow> Button" where
  "Button_init bx by bw bh t =
     \<lparr>button_rect = \<lparr>rect_x = bx, rect_y = by, rect_w = bw, rect_h = bh\<rparr>,
      button_text = t, is_hovered = False\<rparr>"

definition Button_update :: "int \<times> int \<Rightarrow> Button \<Rightarrow> Button" where
  "Button_update mouse_pos b = b\<lparr>is_hovered := collidepoint (button_rect b) mouse_pos\<rparr>"

fun is_clicked :: "Button \<Rightarrow> event \<Rightarrow> bool" where
  "is_clicked b (MOUSEBUTTONDOWN n) = (if n = 1 then is_hovered b else False)"
| "is_clicked b _ = False"

subsection \<open>The game and its states\<close>

datatype GameState =
  MENU_PRINCIPAL | CREACION_PERSONAJE | JUGANDO | COMBATE | INVENTARIO | PAUSA | GAME_OVER
  | VICTORIA

datatype error = AttributeError | KeyError

text \<open>
  The \<open>Game\<close> object together with the attributes of its \<open>JugandoState\<close> and
  \<open>CombateState\<close>.  Enemies are objects shared between the roster and
  \<open>enemigo_actual\<close>, so both hold references (numbers) and \<open>objetos\<close> gives the object
  behind each reference.  \<open>consola\<close> collects the printed lines.  The camera, the
  HUD, the particles and the widgets of the other states are presentation only and are
  not part of the record.  The record describes a session whose \<open>JugandoState\<close> has
  been entered before, so that its roster and key table exist.
\<close>

record game =
  jugador :: "jugador option"
  enemigo_actual :: "nat option"
  objetos :: "nat \<Rightarrow> enemigo"
  current_state :: GameState
  enemigos :: "nat list"
  key_up :: bool
  key_down :: bool
  key_left :: bool
  key_right :: bool
  turno_jugador :: bool
  animando :: bool
  animation_timer :: Timer
  mensaje :: str
  resultado :: "str option"
  attack_button :: Button
  item_button :: Button
  consola :: "str list"

text \<open>
  The hooks \<open>exit\<close> and \<open>enter\<close> of the states.  Only \<open>CombateState.exit\<close> does
  anything; \<open>JugandoState.enter\<close> clears the key table on every entry after the first,
  \<open>CombateState.enter\<close> resets the combat attributes; the remaining \<open>enter\<close> hooks build
  widgets.
\<close>

definition State_exit :: "GameState \<Rightarrow> game \<Rightarrow> game" where
  "State_exit st g = (if st = COMBATE then g\<lparr>enemigo_actual := None\<rparr> else g)"

definition JugandoState_enter :: "game \<Rightarrow> game" where
  "JugandoState_enter g = g\<lparr>key_up := False, key_down := False, key_left := False, key_right := False\<rparr>"

definition CombateState_enter :: "game \<Rightarrow> game" where
  "CombateState_enter g =
     g\<lparr>turno_jugador := True, animando := False, animation_timer := Timer_init 0.5,
       mensaje := [], resultado := None,
       attack_button := Button_init (1280 div 2 - 200 - 20) (720 - 150) 200 50 (u ''Atacar''),
       item_button := Button_init ((1280 div 2 - 200 - 20) + 200 + 20) (720 - 150) 200 50
                        (u ''Usar Objeto'')\<rparr>"

definition State_enter :: "GameState \<Rightarrow> game \<Rightarrow> game" where
  "State_enter st g =
     (if st = JUGANDO then JugandoState_enter g
      else if st = COMBATE then CombateState_enter g
      else g)"

text \<open>
  \<open>Game.change_state\<close>: \<open>exit\<close> of the old state, then the lookup in the state table,
  which has no entry for \<open>VICTORIA\<close>, then \<open>enter\<close> of the new state.
\<close>

definition change_state :: "GameState \<Rightarrow> game \<Rightarrow> error + game" where
  "change_state new_state g =
     (let g1 = State_exit (current_state g) g
      in if new_state = VICTORIA then Inl KeyError
         else Inr (State_enter new_state (g1\<lparr>current_state := new_state\<rparr>)))"

subsection \<open>CombateState\<close>

text \<open>
  \<open>_turno_enemigo\<close>; \<open>r\<close> is the random draw of the enemy's attack.  Reading an
  attribute of \<open>None\<close> raises \<open>AttributeError\<close>.
\<close>

definition turno_enemigo :: "int \<Rightarrow> real \<Rightarrow> game \<Rightarrow> error + game" where
  "turno_enemigo ticks r g =
     (case enemigo_actual g of
        None \<Rightarrow> Inl AttributeError
      | Some ref \<Rightarrow>
          (case jugador g of
             None \<Rightarrow> Inl AttributeError
           | Some j \<Rightarrow>
               let res = Enemigo_atacar r (objetos g ref) j;
                   dano = fst res;
                   g1 = g\<lparr>jugador := Some (fst (snd res)), consola := consola g @ snd (snd res)\<rparr>;
                   g2 = g1\<lparr>mensaje := nombre (objetos g1 ref) @ u '' ataca causando '' @ str_int dano
                                        @ u '' de da'' @ [241] @ u ''o!''\<rparr>;
                   g3 = g2\<lparr>animando := True\<rparr>
               in Inr (g3\<lparr>animation_timer := Timer_start ticks (animation_timer g3)\<rparr>)))"

text \<open>
  \<open>CombateState.update\<close>.  \<open>ticks\<close> is the clock and \<open>mouse_pos\<close> the pointer position
  read during the call, \<open>r\<close> the random draw of an enemy attack made in it.
\<close>

definition truthy :: "str option \<Rightarrow> bool" where
  "truthy v = (case v of None \<Rightarrow> False | Some s \<Rightarrow> s \<noteq> [])"

definition CombateState_update :: "int \<Rightarrow> int \<times> int \<Rightarrow> real \<Rightarrow> game \<Rightarrow> error + game" where
  "CombateState_update ticks mouse_pos r g =
     (if animando g then
        (let tu = Timer_update ticks (animation_timer g);
             g0 = g\<lparr>animation_timer := snd tu\<rparr>
         in if fst tu then
              (let g1 = g0\<lparr>animando := False\<rparr>
               in case jugador g1 of
                    None \<Rightarrow> Inl AttributeError
                  | Some j \<Rightarrow>
                      if \<not> vivo j then Inr (g1\<lparr>resultado := Some (u ''derrota'')\<rparr>)
                      else
                        (case enemigo_actual g1 of
                           None \<Rightarrow> Inl AttributeError
                         | Some ref \<Rightarrow>
                             if \<not> vivo (objetos g1 ref) then
                               (let g2 = g1\<lparr>resultado := Some (u ''victoria'')\<rparr>;
                                    j1 = soltar_recompensa (objetos g2 ref) j
                                in if experiencia j1 \<ge> nivel j1 * 100
                                   then Inr (g2\<lparr>jugador := Some ((Jugador_subir_nivel j1)\<lparr>experiencia := 0\<rparr>)\<rparr>)
                                   else Inr (g2\<lparr>jugador := Some j1\<rparr>))
                             else if turno_jugador g1 \<and> vivo (objetos g1 ref) then
                               turno_enemigo ticks r (g1\<lparr>turno_jugador := False\<rparr>)
                             else Inr (g1\<lparr>turno_jugador := True\<rparr>)))
            else Inr g0)
      else if turno_jugador g \<and> \<not> truthy (resultado g) then
        Inr (g\<lparr>attack_button := Button_update mouse_pos (attack_button g),
               item_button := Button_update mouse_pos (item_button g)\<rparr>)
      else Inr g)"

text \<open>
  The loop of \<open>handle_event\<close> over the inventory: the first object of type
  \<open>"consumible"\<close> is used and removed, the message and the animation are set, and the
  loop ends; without such an object the loop ends with nothing done.
\<close>

fun usar_primer_consumible ::
  "(str \<Rightarrow> str) \<Rightarrow> int \<Rightarrow> jugador \<Rightarrow> objeto list \<Rightarrow> game \<Rightarrow> game" where
  "usar_primer_consumible lower ticks j [] g = g"
| "usar_primer_consumible lower ticks j (obj # objs) g =
     (if tipo obj = u ''consumible'' then
        (let j1 = snd (usar lower obj j);
             j2 = j1\<lparr>inventario := remove1 obj (inventario j1)\<rparr>;
             g1 = g\<lparr>jugador := Some j2\<rparr>;
             g2 = g1\<lparr>mensaje := u ''Usas '' @ obj_nombre obj @ u ''. HP +'' @ str_int (modificador obj)\<rparr>;
             g3 = g2\<lparr>animando := True\<rparr>
         in g3\<lparr>animation_timer := Timer_start ticks (animation_timer g3)\<rparr>)
      else usar_primer_consumible lower ticks j objs g)"

text \<open>
  \<open>CombateState.handle_event\<close>; \<open>r\<close> is the random draw of the player's attack.  The
  code points 161, 241 and 205 are the inverted exclamation mark and the two accented
  letters of the messages.
\<close>

definition CombateState_handle_event ::
  "(str \<Rightarrow> str) \<Rightarrow> int \<Rightarrow> real \<Rightarrow> event \<Rightarrow> game \<Rightarrow> error + game" where
  "CombateState_handle_event lower ticks r ev g =
     (if truthy (resultado g) then
        (case ev of
           MOUSEBUTTONDOWN n \<Rightarrow>
             if resultado g = Some (u ''victoria'') then change_state JUGANDO g
             else change_state GAME_OVER g
         | _ \<Rightarrow> Inr g)
      else if \<not> turno_jugador g \<or> animando g then Inr g
      else if is_clicked (attack_button g) ev then
        (case jugador g of
           None \<Rightarrow> Inl AttributeError
         | Some j \<Rightarrow>
             (case enemigo_actual g of
                None \<Rightarrow> Inl AttributeError
              | Some ref \<Rightarrow>
                  let res = Jugador_atacar r j (objetos g ref);
                      dano = fst res;
                      g1 = g\<lparr>objetos := (objetos g)(ref := fst (snd res)),
                             consola := consola g @ snd (snd res)\<rparr>;
                      critico = (if of_int dano \<ge> of_int (atk j) * (1.5 :: real)
                                 then u '' ('' @ [161] @ u ''CR'' @ [205] @ u ''TICO!)'' else []);
                      g2 = g1\<lparr>mensaje := [161] @ u ''Atacas causando '' @ str_int dano
                                           @ u '' de da'' @ [241] @ u ''o'' @ critico @ u ''!''\<rparr>;
                      g3 = g2\<lparr>animando := True\<rparr>
                  in Inr (g3\<lparr>animation_timer := Timer_start ticks (animation_timer g3)\<rparr>)))
      else if is_clicked (item_button g) ev then
        (case jugador g of
           None \<Rightarrow> Inl AttributeError
         | Some j \<Rightarrow>
             if inventario j \<noteq> [] then Inr (usar_primer_consumible lower ticks j (inventario j) g)
             else Inr (g\<lparr>mensaje := [161] @ u ''No tienes objetos!''\<rparr>))
      else Inr g)"

subsection \<open>JugandoState\<close>

text \<open>
  The loop of \<open>JugandoState.update\<close> over a copy of the roster.  \<open>i\<close> counts the
  iterations and \<open>azar i\<close> holds the random draws available to the enemy updated in
  iteration \<open>i\<close>.  A collision ends the loop and the method with the change to the
  combat state.
\<close>

fun actualizar_enemigos ::
  "real \<Rightarrow> (nat \<Rightarrow> real \<times> real) \<Rightarrow> jugador \<Rightarrow> nat \<Rightarrow> nat list \<Rightarrow> game \<Rightarrow> error + game" where
  "actualizar_enemigos dt azar j i [] g = Inr g"
| "actualizar_enemigos dt azar j i (ref # refs) g =
     (if \<not> vivo (objetos g ref)
      then actualizar_enemigos dt azar j (i + 1) refs (g\<lparr>enemigos := remove1 ref (enemigos g)\<rparr>)
      else
        (let g1 = g\<lparr>objetos := (objetos g)(ref := Enemigo_update dt (azar i) (objetos g ref))\<rparr>
         in if colliderect (rect j) (rect (objetos g1 ref))
            then change_state COMBATE (g1\<lparr>enemigo_actual := Some ref\<rparr>)
            else actualizar_enemigos dt azar j (i + 1) refs g1))"

text \<open>
  The first part of \<open>JugandoState.update\<close>: the direction is read from the key table,
  a diagonal is scaled, and the player moves and is updated.
\<close>

definition mover_segun_teclas :: "real \<Rightarrow> game \<Rightarrow> jugador \<Rightarrow> jugador" where
  "mover_segun_teclas dt g j =
     (let dx = 0;
          dy = 0;
          dy = (if key_up g then - 1 else dy);
          dy = (if key_down g then 1 else dy);
          dx = (if key_left g then - 1 else dx);
          dx = (if key_right g then 1 else dx);
          dx' = (if dx \<noteq> 0 \<and> dy \<noteq> 0 then dx * 0.707 else dx);
          dy' = (if dx \<noteq> 0 \<and> dy \<noteq> 0 then dy * 0.707 else dy)
      in Personaje_update dt (mover dx' dy' dt j))"

text \<open>
  \<open>JugandoState.update\<close>: nothing happens without a player; otherwise the player moves
  and the roster is walked.  The camera and the particles that follow belong to drawing.
\<close>

definition JugandoState_update :: "real \<Rightarrow> (nat \<Rightarrow> real \<times> real) \<Rightarrow> game \<Rightarrow> error + game" where
  "JugandoState_update dt azar g =
     (case jugador g of
        None \<Rightarrow> Inr g
      | Some j \<Rightarrow>
          let j1 = mover_segun_teclas dt g j;
              g1 = g\<lparr>jugador := Some j1\<rparr>
          in actualizar_enemigos dt azar j1 0 (enemigos g1) g1)"

subsection \<open>A session used for concrete runs\<close>

text \<open>
  The potion handed out at character creation, a sword, a consumable without a healing
  marker in its name, and a bandit from the enemy table placed on the player's start
  position.  \<open>exploracion\<close> is a session in the exploration state with the wolf
  (reference 0) and the bandit (reference 1) in its roster; \<open>combate_lobo\<close> is the
  combat against the wolf as \<open>CombateState.enter\<close> leaves it.
\<close>

definition pocion :: objeto where
  "pocion = \<lparr>obj_nombre = u ''Poci'' @ [243] @ u ''n de Vida'', descripcion = u ''Restaura 20 HP'',
              tipo = u ''consumible'', valor = 50, modificador = 20\<rparr>"

definition espada :: objeto where
  "espada = \<lparr>obj_nombre = u ''Espada'', descripcion = u ''Una espada'',
              tipo = u ''arma'', valor = 80, modificador = 5\<rparr>"

definition elixir :: objeto where
  "elixir = \<lparr>obj_nombre = u ''Elixir'', descripcion = u ''Un elixir'',
              tipo = u ''consumible'', valor = 30, modificador = 15\<rparr>"

definition bandido :: enemigo where
  "bandido = Enemigo_init (u ''Bandido'') 60 15 5 (u ''humano'')
               \<lparr>rec_oro = 40, rec_experiencia = 80\<rparr> 640 360"

definition exploracion :: game where
  "exploracion =
     \<lparr>jugador = Some guerrero, enemigo_actual = None,
      objetos = (\<lambda>_. lobo)(Suc 0 := bandido),
      current_state = JUGANDO, enemigos = [0, Suc 0],
      key_up = False, key_down = False, key_left = False, key_right = False,
      turno_jugador = True, animando = False, animation_timer = Timer_init 0.5,
      mensaje = [], resultado = None,
      attack_button = Button_init 420 570 200 50 (u ''Atacar''),
      item_button = Button_init 640 570 200 50 (u ''Usar Objeto''),
      consola = []\<rparr>"

text \<open>
  \<open>exploracion3\<close> has a third enemy in its roster, a dead wolf (reference 2).
  \<open>azar_fijo\<close> is a random source that always draws a wander time of 2 and the angle 0.
\<close>

definition exploracion3 :: game where
  "exploracion3 =
     exploracion\<lparr>enemigos := [0, Suc 0, 2],
       objetos := (objetos exploracion)(2 := fst (snd (recibir_dano 100 lobo)))\<rparr>"

definition azar_fijo :: "nat \<Rightarrow> real \<times> real" where
  "azar_fijo i = (2, 0)"

definition combate_lobo :: game where
  "combate_lobo = CombateState_enter (exploracion\<lparr>enemigo_actual := Some 0, current_state := COMBATE\<rparr>)"

text \<open>
  \<open>sobre_objeto objs\<close>: the player's turn in the combat against the wolf with the
  pointer on the item button and \<open>objs\<close> as inventory.
\<close>

definition sobre_objeto :: "objeto list \<Rightarrow> game" where
  "sobre_objeto objs =
     combate_lobo\<lparr>jugador := Some (guerrero\<lparr>hp := 95, inventario := objs\<rparr>),
       attack_button := Button_update (700, 600) (attack_button combate_lobo),
       item_button := Button_update (700, 600) (item_button combate_lobo)\<rparr>"

subsection \<open>Combats that a run can reach\<close>

text \<open>
  A combat begins when an exploration tick finds a collision, and it goes on through the
  events and ticks that \<open>CombateState\<close> handles until a click leaves it.  The player
  who explores is alive: a defeat leads to the game-over screen and the menu, and the
  game re-enters exploration only with a player that character creation has just built.
  Roster, items, statistics, clock readings, pointer positions and random draws are
  arbitrary.  \<open>combate_inv\<close> is the invariant of these states: the combatants are
  never both dead; between animations, with no result yet, both are alive; during the
  animation after the player's action the player is alive, and during the animation
  after the enemy's action the enemy is alive.
\<close>

inductive reach :: "game \<Rightarrow> bool" where
  entrada: "jugador g = Some j \<Longrightarrow> vivo j \<Longrightarrow> current_state g = JUGANDO \<Longrightarrow>
     JugandoState_update dt azar g = Inr g' \<Longrightarrow> current_state g' = COMBATE \<Longrightarrow> reach g'"
| evento: "reach g \<Longrightarrow> CombateState_handle_event lower ticks r ev g = Inr g' \<Longrightarrow>
     current_state g' = COMBATE \<Longrightarrow> reach g'"
| tick: "reach g \<Longrightarrow> CombateState_update ticks mouse_pos r g = Inr g' \<Longrightarrow> reach g'"

definition combate_inv :: "game \<Rightarrow> bool" where
  "combate_inv g =
     (current_state g = COMBATE \<and>
      (case jugador g of
         None \<Rightarrow> False
       | Some j \<Rightarrow>
           (case enemigo_actual g of
              None \<Rightarrow> False
            | Some ref \<Rightarrow>
                (vivo j \<or> vivo (objetos g ref)) \<and>
                (\<not> animando g \<and> \<not> truthy (resultado g) \<longrightarrow> vivo j \<and> vivo (objetos g ref)) \<and>
                (animando g \<and> turno_jugador g \<longrightarrow> vivo j) \<and>
                (animando g \<and> \<not> turno_jugador g \<longrightarrow> vivo (objetos g ref)))))"

text \<open>
  Two runs.  In the first a warrior with 100 experience points meets a wounded wolf
  (hp 5) standing on him: the exploration tick opens the combat (\<open>encuentro1\<close>), a
  combat tick puts the pointer on the attack button (\<open>encuentro2\<close>) and the click at
  tick 1000 kills the wolf (\<open>encuentro3\<close>).  In the second the warrior of
  \<open>exploracion\<close> meets the bandit and hits him the same way (\<open>asalto1\<close> to \<open>asalto3\<close>).
\<close>

definition lobo_herido :: enemigo where
  "lobo_herido = lobo\<lparr>hp := 5, pos_x := 640, pos_y := 360\<rparr>"

definition encuentro0 :: game where
  "encuentro0 =
     exploracion\<lparr>jugador := Some (guerrero\<lparr>experiencia := 100\<rparr>),
       objetos := (\<lambda>ref. lobo_herido), enemigos := [0]\<rparr>"

definition encuentro1 :: game where
  "encuentro1 = projr (JugandoState_update (1 / 2) azar_fijo encuentro0)"

definition encuentro2 :: game where
  "encuentro2 = projr (CombateState_update 900 (500, 590) (1 / 2) encuentro1)"

definition encuentro3 :: game where
  "encuentro3 =
     projr (CombateState_handle_event lower_latin1 1000 (1 / 2) (MOUSEBUTTONDOWN 1) encuentro2)"

definition asalto1 :: game where
  "asalto1 = projr (JugandoState_update (1 / 2) azar_fijo exploracion)"

definition asalto2 :: game where
  "asalto2 = projr (CombateState_update 900 (500, 590) (1 / 2) asalto1)"

definition asalto3 :: game where
  "asalto3 =
     projr (CombateState_handle_event lower_latin1 1000 (1 / 2) (MOUSEBUTTONDOWN 1) asalto2)"

section \<open>Damage and the life cycle of an entity\<close>

lemmas entidades =
  guerrero_def lobo_def bandido_def Jugador_init_def CLASES_def Personaje_init_def
  Enemigo_init_def personaje.extend_def u_def

text \<open>
  C1.  For every entity, every raw damage \<open>d\<close> and every defense value, \<open>recibir_dano\<close>
  returns the realized damage \<open>max(1, d - defensa // 2)\<close> (floor division) and leaves the
  entity with \<open>hp = max(0, hp_before - realized)\<close>.
\<close>

theorem recibir_dano_realized:
  "fst (recibir_dano d p) = max 1 (d - defensa p div 2) \<and>
   hp (fst (snd (recibir_dano d p))) = max 0 (hp p - fst (recibir_dano d p))"
  by (simp add: recibir_dano_def Let_def)



lemma recibir_dano_vivo:
  "vivo (fst (snd (recibir_dano d p))) = (vivo p \<and> hp (fst (snd (recibir_dano d p))) \<noteq> 0)"
  by (auto simp add: recibir_dano_def Let_def)

lemma recibir_dano_salida:
  "snd (snd (recibir_dano d p)) =
     (if vivo p \<and> hp (fst (snd (recibir_dano d p))) = 0
      then [nombre p @ u '' ha sido derrotado!''] else [])"
  by (simp add: recibir_dano_def Let_def morir_def)

lemma curarse_vivo: "vivo (curarse c p) = vivo p"
  by (simp add: curarse_def)

lemma llamar_muerto:
  "\<not> vivo (fst s) \<Longrightarrow> \<not> vivo (fst (llamar c s)) \<and> snd (llamar c s) = snd s"
  by (cases c; cases s) (simp_all add: recibir_dano_vivo recibir_dano_salida curarse_vivo)

lemma llamar_cuenta:
  "length (snd (llamar c s)) =
     length (snd s) + (if vivo (fst s) \<and> \<not> vivo (fst (llamar c s)) then 1 else 0)"
  by (cases c; cases s) (auto simp add: recibir_dano_vivo recibir_dano_salida curarse_vivo)

lemma foldl_muerto:
  "\<not> vivo (fst s) \<Longrightarrow>
     \<not> vivo (fst (foldl (\<lambda>s c. llamar c s) s cs)) \<and> snd (foldl (\<lambda>s c. llamar c s) s cs) = snd s"
  by (induction cs arbitrary: s) (simp_all add: llamar_muerto)

lemma foldl_cuenta:
  "length (snd (foldl (\<lambda>s c. llamar c s) s cs)) =
     length (snd s) +
     (if vivo (fst s) \<and> \<not> vivo (fst (foldl (\<lambda>s c. llamar c s) s cs)) then 1 else 0)"
proof (induction cs arbitrary: s)
  case Nil
  show ?case by simp
next
  case (Cons c cs)
  show ?case
  proof (cases "vivo (fst (llamar c s))")
    case True
    then have "vivo (fst s)"
      using llamar_muerto [of s c] by blast
    with True show ?thesis
      using Cons [of "llamar c s"] llamar_cuenta [of c s] by simp
  next
    case False
    then show ?thesis
      using foldl_muerto [OF False, of cs] llamar_cuenta [of c s] by simp
  qed
qed

text \<open>
  C3.  For every entity and every sequence of \<open>recibir_dano\<close> and \<open>curarse\<close> calls: once
  \<open>vivo\<close> is false after some calls it is false after any further calls; the number of
  death signals printed over the whole sequence is one if the entity went from alive to
  dead and zero otherwise, so a dead entity that is hit again prints nothing; and a
  single \<open>recibir_dano\<close> prints the signal exactly when the entity was alive and its hp
  reached 0 in that call.
\<close>

theorem vivo_never_returns:
  "(\<not> vivo (fst (ejecutar cs p)) \<longrightarrow> \<not> vivo (fst (ejecutar (cs @ cs') p))) \<and>
   length (snd (ejecutar cs p)) = (if vivo p \<and> \<not> vivo (fst (ejecutar cs p)) then 1 else 0) \<and>
   snd (snd (recibir_dano d p)) =
     (if vivo p \<and> hp (fst (snd (recibir_dano d p))) = 0
      then morir (fst (snd (recibir_dano d p))) else [])"
  using foldl_muerto [of "ejecutar cs p" cs'] foldl_cuenta [of "(p, [])" cs]
  by (simp add: ejecutar_def recibir_dano_salida morir_def recibir_dano_def Let_def)

theorem vivo_never_returns_witness:
  "\<not> vivo (fst (ejecutar [Recibir_dano 41] lobo)) \<and>
   \<not> vivo (fst (ejecutar ([Recibir_dano 41] @ [Curarse 20, Recibir_dano 41]) lobo)) \<and>
   hp (fst (ejecutar [Recibir_dano 41, Curarse 20] lobo)) = 20 \<and>
   length (snd (ejecutar ([Recibir_dano 41] @ [Curarse 20, Recibir_dano 41]) lobo)) = 1"
  using vivo_never_returns [of "[Recibir_dano 41]" lobo "[Curarse 20, Recibir_dano 41]" 0]
    vivo_never_returns [of "[Recibir_dano 41] @ [Curarse 20, Recibir_dano 41]" lobo "[]" 0]
  by (simp add: entidades ejecutar_def recibir_dano_def curarse_def morir_def Let_def)

text \<open>
  C4, as the code has it.  The invariant \<open>0 \<le> hp \<le> hp_max\<close>, \<open>vivo = (hp > 0)\<close> is
  preserved by \<open>recibir_dano\<close> in every state, by \<open>curarse\<close> with a non-negative amount
  and by the player's \<open>subir_nivel\<close> when the entity is alive, and by the enemy's
  \<open>subir_nivel\<close>, which does nothing.  On a dead entity \<open>curarse\<close> and \<open>subir_nivel\<close>
  still keep \<open>0 \<le> hp \<le> hp_max\<close>, but they raise hp and leave \<open>vivo\<close> false.
\<close>

theorem entity_inv_preserved:
  "(entity_inv p \<longrightarrow> entity_inv (fst (snd (recibir_dano d p)))) \<and>
   (entity_inv p \<and> vivo p \<and> 0 \<le> c \<longrightarrow> entity_inv (curarse c p)) \<and>
   (entity_inv j \<and> vivo j \<longrightarrow> entity_inv (Jugador_subir_nivel j)) \<and>
   (entity_inv e \<longrightarrow> entity_inv (Enemigo_subir_nivel e)) \<and>
   (entity_inv p \<and> 0 \<le> c \<longrightarrow>
      0 \<le> hp (curarse c p) \<and> hp (curarse c p) \<le> hp_max (curarse c p) \<and>
      vivo (curarse c p) = vivo p) \<and>
   (entity_inv j \<longrightarrow>
      0 \<le> hp (Jugador_subir_nivel j) \<and>
      hp (Jugador_subir_nivel j) \<le> hp_max (Jugador_subir_nivel j) \<and>
      vivo (Jugador_subir_nivel j) = vivo j)"
  by (auto simp add: entity_inv_def recibir_dano_def Let_def curarse_def
      Jugador_subir_nivel_def Enemigo_subir_nivel_def)

theorem entity_inv_preserved_witness:
  "entity_inv lobo \<and> vivo lobo \<and> (0::int) \<le> 20 \<and> entity_inv guerrero \<and> vivo guerrero \<and>
   entity_inv (fst (snd (recibir_dano 41 lobo))) \<and>
   entity_inv (curarse 20 lobo) \<and>
   entity_inv (Jugador_subir_nivel guerrero) \<and>
   entity_inv (Enemigo_subir_nivel lobo)"
  using entity_inv_preserved [of lobo 41 20 guerrero lobo]
  by (simp add: entidades entity_inv_def)

text \<open>
  The invariant is lost when a dead entity is healed: the wolf killed by one blow
  satisfies it, and after \<open>curarse(20)\<close> it has hp 20 while \<open>vivo\<close> is still false.
\<close>

theorem entity_inv_curarse_counterexample:
  "entity_inv (fst (snd (recibir_dano 41 lobo))) \<and>
   \<not> entity_inv (curarse 20 (fst (snd (recibir_dano 41 lobo))))"
  by (simp add: entidades entity_inv_def recibir_dano_def curarse_def Let_def)

section \<open>Items\<close>

lemma str_in_sublist: "str_in a b \<longleftrightarrow> sublist a b"
  by (induction b) (auto simp: sublist_Cons_right)

text \<open>
  C6.  \<open>usar\<close> returns true exactly when the item's type is \<open>"consumible"\<close> and its
  lower-cased name contains one of the two healing markers as a contiguous run; in that
  case the target is healed by the item's modifier (\<open>curarse\<close>, capped at \<open>hp_max\<close>),
  and in every other case the target is unchanged.
\<close>

theorem usar_healing_marker:
  "(fst (usar lower ob p) \<longleftrightarrow>
      tipo ob = u ''consumible'' \<and>
      (sublist (u ''vida'') (lower (obj_nombre ob)) \<or>
       sublist (u ''poci'' @ [243] @ u ''n'') (lower (obj_nombre ob)))) \<and>
   snd (usar lower ob p) = (if fst (usar lower ob p) then curarse (modificador ob) p else p) \<and>
   hp (curarse (modificador ob) p) = min (hp_max p) (hp p + modificador ob)"
  by (simp add: usar_def str_in_sublist curarse_def)

theorem usar_healing_marker_witness:
  "fst (usar lower_latin1 pocion (guerrero\<lparr>hp := 95\<rparr>)) \<and>
   hp (snd (usar lower_latin1 pocion (guerrero\<lparr>hp := 95\<rparr>))) = 115 \<and>
   \<not> fst (usar lower_latin1 espada guerrero) \<and> snd (usar lower_latin1 espada guerrero) = guerrero \<and>
   \<not> fst (usar lower_latin1 elixir guerrero) \<and> snd (usar lower_latin1 elixir guerrero) = guerrero"
  using usar_healing_marker [of lower_latin1 pocion "guerrero\<lparr>hp := 95\<rparr>"]
    usar_healing_marker [of lower_latin1 espada guerrero]
    usar_healing_marker [of lower_latin1 elixir guerrero]
  by (simp add: entidades pocion_def espada_def elixir_def usar_def lower_latin1_def curarse_def)

section \<open>Combat\<close>

lemmas partida =
  combate_lobo_def exploracion_def CombateState_enter_def Timer_init_def Timer_start_def
  Button_init_def Timer_update_def recibir_dano_def Let_def morir_def

lemmas botones = sobre_objeto_def partida Button_update_def collidepoint_def truthy_def

lemma Timer_update_expired:
  "fst (Timer_update ticks t) \<Longrightarrow> snd (Timer_update ticks t) = t\<lparr>active := False\<rparr>"
  by (simp add: Timer_update_def Let_def split: if_splits)

text \<open>
  The victory branch of the resolution step, for a living player and a dead enemy.
\<close>

lemma victoria_paso:
  assumes "animando g" "fst (Timer_update ticks (animation_timer g))"
    "jugador g = Some j" "vivo j" "enemigo_actual g = Some ref" "\<not> vivo (objetos g ref)"
  shows "CombateState_update ticks mouse_pos r g =
     Inr (g\<lparr>animation_timer := (animation_timer g)\<lparr>active := False\<rparr>, animando := False,
            resultado := Some (u ''victoria''),
            jugador := Some
              (if experiencia j + rec_experiencia (recompensa (objetos g ref)) \<ge> nivel j * 100
               then j\<lparr>oro := oro j + rec_oro (recompensa (objetos g ref)),
                      nivel := nivel j + 1, hp_max := hp_max j + 10, hp := hp_max j + 10,
                      atk := atk j + 2, defensa := defensa j + 1, experiencia := 0\<rparr>
               else j\<lparr>oro := oro j + rec_oro (recompensa (objetos g ref)),
                      experiencia := experiencia j + rec_experiencia (recompensa (objetos g ref))\<rparr>)\<rparr>)"
  using assms
  by (simp add: CombateState_update_def Let_def Timer_update_expired soltar_recompensa_def
      Jugador_subir_nivel_def)

text \<open>
  The resolution step in the order of the tests in \<open>CombateState.update\<close>: the player's
  flag, then the enemy's flag, then the turn.
\<close>

lemma resolucion_paso:
  assumes "animando g" "fst (Timer_update ticks (animation_timer g))"
    "jugador g = Some j" "enemigo_actual g = Some ref"
  shows "CombateState_update ticks mouse_pos r g =
     (if \<not> vivo j then
        Inr (g\<lparr>animation_timer := (animation_timer g)\<lparr>active := False\<rparr>, animando := False,
               resultado := Some (u ''derrota'')\<rparr>)
      else if \<not> vivo (objetos g ref) then
        Inr (g\<lparr>animation_timer := (animation_timer g)\<lparr>active := False\<rparr>, animando := False,
               resultado := Some (u ''victoria''),
               jugador := Some
                 (if experiencia (soltar_recompensa (objetos g ref) j) \<ge> nivel j * 100
                  then (Jugador_subir_nivel (soltar_recompensa (objetos g ref) j))\<lparr>experiencia := 0\<rparr>
                  else soltar_recompensa (objetos g ref) j)\<rparr>)
      else if turno_jugador g then
        Inr (g\<lparr>turno_jugador := False,
               jugador := Some (fst (snd (Enemigo_atacar r (objetos g ref) j))),
               consola := consola g @ snd (snd (Enemigo_atacar r (objetos g ref) j)),
               mensaje := nombre (objetos g ref) @ u '' ataca causando ''
                            @ str_int (fst (Enemigo_atacar r (objetos g ref) j))
                            @ u '' de da'' @ [241] @ u ''o!'',
               animando := True,
               animation_timer := (animation_timer g)\<lparr>start_time := ticks, active := True\<rparr>\<rparr>)
      else
        Inr (g\<lparr>animation_timer := (animation_timer g)\<lparr>active := False\<rparr>, animando := False,
               turno_jugador := True\<rparr>))"
  using assms
  by (simp add: CombateState_update_def Let_def Timer_update_expired turno_enemigo_def
      Timer_start_def soltar_recompensa_def)

section \<open>Using an item in combat\<close>

lemma usar_primer_consumible_ninguno:
  "\<forall>ob \<in> set obs. tipo ob \<noteq> u ''consumible'' \<Longrightarrow> usar_primer_consumible lower ticks j obs g = g"
  by (induction obs) simp_all

lemma usar_primer_consumible_primero:
  "\<forall>o' \<in> set pre. tipo o' \<noteq> u ''consumible'' \<Longrightarrow> tipo ob = u ''consumible'' \<Longrightarrow>
   usar_primer_consumible lower ticks j (pre @ ob # post) g =
     g\<lparr>jugador := Some ((snd (usar lower ob j))
                          \<lparr>inventario := remove1 ob (inventario (snd (usar lower ob j)))\<rparr>),
       mensaje := u ''Usas '' @ obj_nombre ob @ u ''. HP +'' @ str_int (modificador ob),
       animando := True,
       animation_timer := (animation_timer g)\<lparr>start_time := ticks, active := True\<rparr>\<rparr>"
  by (induction pre) (simp_all add: Let_def Timer_start_def)

lemma usar_inventario: "inventario (snd (usar lower ob j)) = inventario j"
  by (simp add: usar_def curarse_def)

lemma remove1_primero: "ob \<notin> set pre \<Longrightarrow> remove1 ob (pre @ ob # post) = pre @ post"
  by (induction pre) auto

text \<open>
  C7, as the code has it.  Use-Item is selected during the player's turn (no result
  yet, no animation running, the click is on the item button).  If the inventory is
  empty, the message "no items" is set and nothing else changes: the turn stays with
  the player, player and enemy are unchanged and no animation delay starts.  If the
  inventory is not empty but holds no consumable, nothing changes at all, the message
  included.
\<close>

theorem use_item_without_consumable:
  assumes "\<not> truthy (resultado g)" "turno_jugador g" "\<not> animando g"
    "\<not> is_clicked (attack_button g) ev" "is_clicked (item_button g) ev" "jugador g = Some j"
  shows "(inventario j = [] \<longrightarrow>
           CombateState_handle_event lower ticks r ev g =
             Inr (g\<lparr>mensaje := [161] @ u ''No tienes objetos!''\<rparr>)) \<and>
         (inventario j \<noteq> [] \<and> (\<forall>ob \<in> set (inventario j). tipo ob \<noteq> u ''consumible'') \<longrightarrow>
           CombateState_handle_event lower ticks r ev g = Inr g)"
  using assms by (simp add: CombateState_handle_event_def usar_primer_consumible_ninguno)

theorem use_item_without_consumable_witness:
  "\<not> truthy (resultado (sobre_objeto [])) \<and> turno_jugador (sobre_objeto []) \<and>
   \<not> animando (sobre_objeto []) \<and>
   \<not> is_clicked (attack_button (sobre_objeto [])) (MOUSEBUTTONDOWN 1) \<and>
   is_clicked (item_button (sobre_objeto [])) (MOUSEBUTTONDOWN 1) \<and>
   inventario (guerrero\<lparr>hp := 95, inventario := []\<rparr>) = [] \<and>
   CombateState_handle_event lower_latin1 2000 (1 / 2) (MOUSEBUTTONDOWN 1) (sobre_objeto []) =
     Inr ((sobre_objeto [])\<lparr>mensaje := [161] @ u ''No tienes objetos!''\<rparr>)"
proof -
  have h: "\<not> truthy (resultado (sobre_objeto []))" "turno_jugador (sobre_objeto [])"
    "\<not> animando (sobre_objeto [])"
    "\<not> is_clicked (attack_button (sobre_objeto [])) (MOUSEBUTTONDOWN 1)"
    "is_clicked (item_button (sobre_objeto [])) (MOUSEBUTTONDOWN 1)"
    "jugador (sobre_objeto []) = Some (guerrero\<lparr>hp := 95, inventario := []\<rparr>)"
    by (simp_all add: botones)
  show ?thesis
    using h use_item_without_consumable [OF h, of lower_latin1 2000 "1 / 2"] by simp
qed

text \<open>
  With a sword as the only object the inventory holds zero consumables; Use-Item then
  leaves the game as it is, and the message stays empty instead of "no items".
\<close>

theorem use_item_without_consumable_counterexample:
  "\<not> truthy (resultado (sobre_objeto [espada])) \<and> turno_jugador (sobre_objeto [espada]) \<and>
   \<not> animando (sobre_objeto [espada]) \<and>
   is_clicked (item_button (sobre_objeto [espada])) (MOUSEBUTTONDOWN 1) \<and>
   filter (\<lambda>ob. tipo ob = u ''consumible'') [espada] = [] \<and>
   CombateState_handle_event lower_latin1 2000 (1 / 2) (MOUSEBUTTONDOWN 1) (sobre_objeto [espada]) =
     Inr (sobre_objeto [espada]) \<and>
   mensaje (sobre_objeto [espada]) = [] \<and>
   mensaje (sobre_objeto [espada]) \<noteq> [161] @ u ''No tienes objetos!''"
  by (simp add: botones CombateState_handle_event_def espada_def u_def)

text \<open>
  C10.  Use-Item is selected during the player's turn and the inventory holds a
  consumable: the first consumable in insertion order is removed from the inventory,
  the message reports its name and \<open>HP +\<close> its modifier, and the animation delay starts
  at the current tick, whatever \<open>usar\<close> returned; when \<open>usar\<close> returned false the
  player is otherwise unchanged (nothing is healed).
\<close>

theorem use_item_first_consumable:
  assumes "\<not> truthy (resultado g)" "turno_jugador g" "\<not> animando g"
    "\<not> is_clicked (attack_button g) ev" "is_clicked (item_button g) ev" "jugador g = Some j"
    "inventario j = pre @ ob # post" "\<forall>o' \<in> set pre. tipo o' \<noteq> u ''consumible''"
    "tipo ob = u ''consumible''"
  shows "CombateState_handle_event lower ticks r ev g =
      Inr (g\<lparr>jugador := Some ((snd (usar lower ob j))\<lparr>inventario := pre @ post\<rparr>),
             mensaje := u ''Usas '' @ obj_nombre ob @ u ''. HP +'' @ str_int (modificador ob),
             animando := True,
             animation_timer := (animation_timer g)\<lparr>start_time := ticks, active := True\<rparr>\<rparr>) \<and>
     (\<not> fst (usar lower ob j) \<longrightarrow> snd (usar lower ob j) = j)"
proof -
  have "ob \<notin> set pre"
    using assms(8,9) by auto
  then have "remove1 ob (pre @ ob # post) = pre @ post"
    by (rule remove1_primero)
  moreover have "\<not> fst (usar lower ob j) \<longrightarrow> snd (usar lower ob j) = j"
    by (simp add: usar_def)
  ultimately show ?thesis
    using assms usar_primer_consumible_primero [OF assms(8,9), of lower ticks j post g]
    by (simp add: CombateState_handle_event_def usar_inventario)
qed

theorem use_item_first_consumable_witness:
  "\<not> truthy (resultado (sobre_objeto [espada, elixir, pocion])) \<and>
   turno_jugador (sobre_objeto [espada, elixir, pocion]) \<and>
   \<not> animando (sobre_objeto [espada, elixir, pocion]) \<and>
   \<not> is_clicked (attack_button (sobre_objeto [espada, elixir, pocion])) (MOUSEBUTTONDOWN 1) \<and>
   is_clicked (item_button (sobre_objeto [espada, elixir, pocion])) (MOUSEBUTTONDOWN 1) \<and>
   tipo espada \<noteq> u ''consumible'' \<and> tipo elixir = u ''consumible'' \<and>
   \<not> fst (usar lower_latin1 elixir (guerrero\<lparr>hp := 95, inventario := [espada, elixir, pocion]\<rparr>)) \<and>
   CombateState_handle_event lower_latin1 2000 (1 / 2) (MOUSEBUTTONDOWN 1)
       (sobre_objeto [espada, elixir, pocion]) =
     Inr ((sobre_objeto [espada, elixir, pocion])
            \<lparr>jugador := Some (guerrero\<lparr>hp := 95, inventario := [espada, pocion]\<rparr>),
             mensaje := u ''Usas Elixir. HP +15'',
             animando := True,
             animation_timer := \<lparr>duration = 0.5, start_time = 2000, active = True\<rparr>\<rparr>)"
proof -
  let ?g = "sobre_objeto [espada, elixir, pocion]"
  let ?j = "guerrero\<lparr>hp := 95, inventario := [espada, elixir, pocion]\<rparr>"
  have h: "\<not> truthy (resultado ?g)" "turno_jugador ?g" "\<not> animando ?g"
    "\<not> is_clicked (attack_button ?g) (MOUSEBUTTONDOWN 1)"
    "is_clicked (item_button ?g) (MOUSEBUTTONDOWN 1)"
    "jugador ?g = Some ?j"
    by (simp_all add: botones)
  have i: "inventario ?j = [espada] @ elixir # [pocion]"
    "\<forall>o' \<in> set [espada]. tipo o' \<noteq> u ''consumible''" "tipo elixir = u ''consumible''"
    by (simp_all add: espada_def elixir_def u_def)
  have n: "\<not> fst (usar lower_latin1 elixir ?j)"
    by (simp add: usar_def elixir_def lower_latin1_def u_def)
  have m: "u ''Usas '' @ obj_nombre elixir @ u ''. HP +'' @ str_int (modificador elixir) =
             u ''Usas Elixir. HP +15''"
    by (simp add: elixir_def u_def str_int_def str_nat.simps)
  have t: "animation_timer ?g = \<lparr>duration = 0.5, start_time = 0, active = False\<rparr>"
    by (simp add: botones)
  show ?thesis
    using h i(2,3) n use_item_first_consumable [OF h i, of lower_latin1 2000 "1 / 2"]
    by (simp add: m t)
qed

section \<open>Exploration\<close>

lemma Enemigo_update_stats:
  "vivo (Enemigo_update dt a e) = vivo e \<and> hp (Enemigo_update dt a e) = hp e \<and>
   hp_max (Enemigo_update dt a e) = hp_max e \<and> atk (Enemigo_update dt a e) = atk e \<and>
   defensa (Enemigo_update dt a e) = defensa e \<and> nombre (Enemigo_update dt a e) = nombre e \<and>
   recompensa (Enemigo_update dt a e) = recompensa e"
  by (simp add: Enemigo_update_def Personaje_update_def Let_def)

lemma Enemigo_update_vivo: "vivo (Enemigo_update dt a e) = vivo e"
  by (simp add: Enemigo_update_stats)

lemma Enemigo_update_rect:
  "rect (Enemigo_update dt a e) = (rect e)\<lparr>rect_x := py_int (pos_x e), rect_y := py_int (pos_y e)\<rparr>"
  by (simp add: Enemigo_update_def Personaje_update_def Let_def)

lemma filter_neq_id: "r \<notin> set xs \<Longrightarrow> filter (\<lambda>y. y \<noteq> r) xs = xs"
  by (induction xs) auto

lemma remove1_filter: "distinct xs \<Longrightarrow> remove1 r xs = filter (\<lambda>y. y \<noteq> r) xs"
  by (induction xs) (auto simp add: filter_neq_id)

lemma bucle_colision:
  assumes "distinct refs" "distinct (enemigos g)" "k < length refs"
    "vivo (objetos g (refs ! k))"
    "colliderect (rect j) (rect (Enemigo_update dt (azar (i + k)) (objetos g (refs ! k))))"
    "\<forall>m<k. vivo (objetos g (refs ! m)) \<longrightarrow>
       \<not> colliderect (rect j) (rect (Enemigo_update dt (azar (i + m)) (objetos g (refs ! m))))"
    "current_state g = JUGANDO"
  shows "\<exists>g'. actualizar_enemigos dt azar j i refs g = Inr g' \<and>
      enemigo_actual g' = Some (refs ! k) \<and> current_state g' = COMBATE \<and>
      enemigos g' = filter (\<lambda>r. r \<notin> set (take k refs) \<or> vivo (objetos g r)) (enemigos g) \<and>
      (\<forall>m\<le>k. vivo (objetos g (refs ! m)) \<longrightarrow>
         objetos g' (refs ! m) = Enemigo_update dt (azar (i + m)) (objetos g (refs ! m))) \<and>
      (\<forall>r. r \<notin> set (take (Suc k) refs) \<or> \<not> vivo (objetos g r) \<longrightarrow> objetos g' r = objetos g r) \<and>
      jugador g' = jugador g \<and> turno_jugador g' \<and> \<not> animando g' \<and> resultado g' = None"
  using assms
proof (induction refs arbitrary: i g k)
  case Nil
  then show ?case by simp
next
  case (Cons ref rest)
  show ?case
  proof (cases k)
    case 0
    with Cons.prems show ?thesis
      by (simp add: Let_def change_state_def State_exit_def State_enter_def CombateState_enter_def)
  next
    case (Suc k')
    define g1 where "g1 =
      (if \<not> vivo (objetos g ref) then g\<lparr>enemigos := remove1 ref (enemigos g)\<rparr>
       else g\<lparr>objetos := (objetos g)(ref := Enemigo_update dt (azar i) (objetos g ref))\<rparr>)"
    have nocol: "vivo (objetos g ref) \<Longrightarrow>
        \<not> colliderect (rect j) (rect (Enemigo_update dt (azar i) (objetos g ref)))"
      using Cons.prems(6) Suc by auto
    have step: "actualizar_enemigos dt azar j i (ref # rest) g =
        actualizar_enemigos dt azar j (Suc i) rest g1"
      using nocol by (simp add: g1_def Let_def)
    have notin: "ref \<notin> set rest" and drest: "distinct rest"
      using Cons.prems(1) by auto
    have viv: "vivo (objetos g1 r) = vivo (objetos g r)" for r
      by (simp add: g1_def Enemigo_update_vivo)
    have obj: "objetos g1 r = objetos g r" if "r \<noteq> ref \<or> \<not> vivo (objetos g ref)" for r
      using that by (auto simp add: g1_def)
    have objref: "vivo (objetos g ref) \<Longrightarrow> objetos g1 ref = Enemigo_update dt (azar i) (objetos g ref)"
      by (simp add: g1_def)
    have en: "enemigos g1 = filter (\<lambda>r. r \<noteq> ref \<or> vivo (objetos g r)) (enemigos g)"
    proof (cases "vivo (objetos g ref)")
      case True
      then have "filter (\<lambda>r. r \<noteq> ref \<or> vivo (objetos g r)) (enemigos g) = enemigos g"
        by (auto intro: filter_True)
      with True show ?thesis by (simp add: g1_def)
    next
      case False
      then have "filter (\<lambda>r. r \<noteq> ref \<or> vivo (objetos g r)) (enemigos g) = filter (\<lambda>r. r \<noteq> ref) (enemigos g)"
        by (auto intro: filter_cong)
      with False show ?thesis by (simp add: g1_def remove1_filter [OF Cons.prems(2)])
    qed
    have d1: "distinct (enemigos g1)"
      using Cons.prems(2) by (simp add: en)
    have jg: "jugador g1 = jugador g" and cs: "current_state g1 = JUGANDO"
      using Cons.prems(7) by (simp_all add: g1_def)
    have k': "k' < length rest"
      using Cons.prems(3) Suc by simp
    have mem: "rest ! m \<noteq> ref" if "m < length rest" for m
      using that notin nth_mem by metis
    have p4: "vivo (objetos g1 (rest ! k'))"
      using Cons.prems(4) Suc by (simp add: viv)
    have p5: "colliderect (rect j) (rect (Enemigo_update dt (azar (Suc i + k')) (objetos g1 (rest ! k'))))"
      using Cons.prems(5) Suc obj [of "rest ! k'"] mem [OF k'] by simp
    have p6: "\<forall>m<k'. vivo (objetos g1 (rest ! m)) \<longrightarrow>
       \<not> colliderect (rect j) (rect (Enemigo_update dt (azar (Suc i + m)) (objetos g1 (rest ! m))))"
    proof (intro allI impI)
      fix m assume m: "m < k'" and v: "vivo (objetos g1 (rest ! m))"
      have "m < length rest" using m k' by simp
      then have "objetos g1 (rest ! m) = objetos g (rest ! m)" using obj mem by simp
      moreover have "Suc m < k" using m Suc by simp
      ultimately show "\<not> colliderect (rect j) (rect (Enemigo_update dt (azar (Suc i + m)) (objetos g1 (rest ! m))))"
        using Cons.prems(6) [rule_format, of "Suc m"] v by simp
    qed
    obtain g' where g': "actualizar_enemigos dt azar j (Suc i) rest g1 = Inr g'"
      "enemigo_actual g' = Some (rest ! k')" "current_state g' = COMBATE"
      "enemigos g' = filter (\<lambda>r. r \<notin> set (take k' rest) \<or> vivo (objetos g1 r)) (enemigos g1)"
      "\<forall>m\<le>k'. vivo (objetos g1 (rest ! m)) \<longrightarrow>
         objetos g' (rest ! m) = Enemigo_update dt (azar (Suc i + m)) (objetos g1 (rest ! m))"
      "\<forall>r. r \<notin> set (take (Suc k') rest) \<or> \<not> vivo (objetos g1 r) \<longrightarrow> objetos g' r = objetos g1 r"
      "jugador g' = jugador g1" "turno_jugador g'" "\<not> animando g'" "resultado g' = None"
      using Cons.IH [OF drest d1 k' p4 p5 p6 cs] by blast
    have c1: "enemigos g' = filter (\<lambda>r. r \<notin> set (take k (ref # rest)) \<or> vivo (objetos g r)) (enemigos g)"
      unfolding g'(4) en viv Suc by (auto intro: filter_cong)
    have tk: "ref \<notin> set (take (Suc k') rest)"
      using notin by (meson in_set_takeD)
    have c2: "\<forall>m\<le>k. vivo (objetos g ((ref # rest) ! m)) \<longrightarrow>
         objetos g' ((ref # rest) ! m) = Enemigo_update dt (azar (i + m)) (objetos g ((ref # rest) ! m))"
    proof (intro allI impI)
      fix m assume m: "m \<le> k" and v: "vivo (objetos g ((ref # rest) ! m))"
      show "objetos g' ((ref # rest) ! m) = Enemigo_update dt (azar (i + m)) (objetos g ((ref # rest) ! m))"
      proof (cases m)
        case 0
        then show ?thesis using v g'(6) tk objref by simp
      next
        case (Suc m')
        then have m': "m' \<le> k'" "m' < length rest" using m \<open>k = Suc k'\<close> k' by simp_all
        then have "objetos g1 (rest ! m') = objetos g (rest ! m')" using obj mem by simp
        then show ?thesis using Suc v g'(5) m'(1) by simp
      qed
    qed
    have c3: "\<forall>r. r \<notin> set (take (Suc k) (ref # rest)) \<or> \<not> vivo (objetos g r) \<longrightarrow> objetos g' r = objetos g r"
    proof (intro allI impI)
      fix r assume a: "r \<notin> set (take (Suc k) (ref # rest)) \<or> \<not> vivo (objetos g r)"
      then have "r \<notin> set (take (Suc k') rest) \<or> \<not> vivo (objetos g1 r)"
        using Suc by (auto simp add: viv)
      then have "objetos g' r = objetos g1 r" using g'(6) by blast
      moreover have "objetos g1 r = objetos g r"
        using a Suc obj [of r] by auto
      ultimately show "objetos g' r = objetos g r" by simp
    qed
    show ?thesis
      using step g'(1,2,3,7,8,9,10) c1 c2 c3 jg Suc by simp
  qed
qed


lemma bucle_sin_colision:
  assumes "distinct refs" "distinct (enemigos g)"
    "\<forall>m<length refs. vivo (objetos g (refs ! m)) \<longrightarrow>
       \<not> colliderect (rect j) (rect (Enemigo_update dt (azar (i + m)) (objetos g (refs ! m))))"
  shows "\<exists>g'. actualizar_enemigos dt azar j i refs g = Inr g' \<and>
      enemigo_actual g' = enemigo_actual g \<and> current_state g' = current_state g \<and>
      enemigos g' = filter (\<lambda>r. r \<notin> set refs \<or> vivo (objetos g r)) (enemigos g) \<and>
      jugador g' = jugador g"
  using assms
proof (induction refs arbitrary: i g)
  case Nil
  then show ?case by simp
next
  case (Cons ref rest)
  define g1 where "g1 =
    (if \<not> vivo (objetos g ref) then g\<lparr>enemigos := remove1 ref (enemigos g)\<rparr>
     else g\<lparr>objetos := (objetos g)(ref := Enemigo_update dt (azar i) (objetos g ref))\<rparr>)"
  have nocol: "vivo (objetos g ref) \<Longrightarrow>
      \<not> colliderect (rect j) (rect (Enemigo_update dt (azar i) (objetos g ref)))"
    using Cons.prems(3) by auto
  have step: "actualizar_enemigos dt azar j i (ref # rest) g =
      actualizar_enemigos dt azar j (Suc i) rest g1"
    using nocol by (simp add: g1_def Let_def)
  have notin: "ref \<notin> set rest" and drest: "distinct rest"
    using Cons.prems(1) by auto
  have viv: "vivo (objetos g1 r) = vivo (objetos g r)" for r
    by (simp add: g1_def Enemigo_update_vivo)
  have obj: "objetos g1 r = objetos g r" if "r \<noteq> ref" for r
    using that by (auto simp add: g1_def)
  have en: "enemigos g1 = filter (\<lambda>r. r \<noteq> ref \<or> vivo (objetos g r)) (enemigos g)"
  proof (cases "vivo (objetos g ref)")
    case True
    then have "filter (\<lambda>r. r \<noteq> ref \<or> vivo (objetos g r)) (enemigos g) = enemigos g"
      by (auto intro: filter_True)
    with True show ?thesis by (simp add: g1_def)
  next
    case False
    then have "filter (\<lambda>r. r \<noteq> ref \<or> vivo (objetos g r)) (enemigos g) = filter (\<lambda>r. r \<noteq> ref) (enemigos g)"
      by (auto intro: filter_cong)
    with False show ?thesis by (simp add: g1_def remove1_filter [OF Cons.prems(2)])
  qed
  have d1: "distinct (enemigos g1)"
    using Cons.prems(2) by (simp add: en)
  have same: "jugador g1 = jugador g" "current_state g1 = current_state g"
    "enemigo_actual g1 = enemigo_actual g"
    by (simp_all add: g1_def)
  have mem: "rest ! m \<noteq> ref" if "m < length rest" for m
    using that notin nth_mem by metis
  have p3: "\<forall>m<length rest. vivo (objetos g1 (rest ! m)) \<longrightarrow>
     \<not> colliderect (rect j) (rect (Enemigo_update dt (azar (Suc i + m)) (objetos g1 (rest ! m))))"
  proof (intro allI impI)
    fix m assume m: "m < length rest" and v: "vivo (objetos g1 (rest ! m))"
    have "objetos g1 (rest ! m) = objetos g (rest ! m)" using obj mem m by simp
    then show "\<not> colliderect (rect j) (rect (Enemigo_update dt (azar (Suc i + m)) (objetos g1 (rest ! m))))"
      using Cons.prems(3) [rule_format, of "Suc m"] v m by simp
  qed
  obtain g' where g': "actualizar_enemigos dt azar j (Suc i) rest g1 = Inr g'"
    "enemigo_actual g' = enemigo_actual g1" "current_state g' = current_state g1"
    "enemigos g' = filter (\<lambda>r. r \<notin> set rest \<or> vivo (objetos g1 r)) (enemigos g1)"
    "jugador g' = jugador g1"
    using Cons.IH [OF drest d1 p3] by blast
  have c1: "enemigos g' = filter (\<lambda>r. r \<notin> set (ref # rest) \<or> vivo (objetos g r)) (enemigos g)"
    unfolding g'(4) en viv by (auto intro: filter_cong)
  show ?case
    using step g'(1,2,3,5) c1 same by simp
qed

text \<open>
  C9, as the code has it.  On an exploration tick with a player, the roster is walked in
  order: an enemy whose \<open>vivo\<close> flag is false is removed from the roster, a live enemy
  first receives its own update for the tick (rectangle, wander movement), and the
  first live enemy whose rectangle then overlaps the player's becomes the current enemy
  and the game changes to the combat state, which ends the walk: the enemies after it
  are neither updated nor, when dead, removed in that tick.  No update changes an
  enemy's \<open>vivo\<close> flag, hp, attack or defense.  In particular, if only the second of
  two live enemies overlaps the player, that enemy becomes current and the roster stays
  as it is.  Without any overlap the roster loses exactly its dead enemies and the
  state stays in exploration.
\<close>

theorem encounter_first_overlap:
  assumes "jugador g = Some j0" "current_state g = JUGANDO" "distinct (enemigos g)"
  shows
   "(k < length (enemigos g) \<and> vivo (objetos g (enemigos g ! k)) \<and>
     colliderect (rect (mover_segun_teclas dt g j0))
       (rect (Enemigo_update dt (azar k) (objetos g (enemigos g ! k)))) \<and>
     (\<forall>m<k. vivo (objetos g (enemigos g ! m)) \<longrightarrow>
        \<not> colliderect (rect (mover_segun_teclas dt g j0))
            (rect (Enemigo_update dt (azar m) (objetos g (enemigos g ! m))))) \<longrightarrow>
     (\<exists>g'. JugandoState_update dt azar g = Inr g' \<and>
        enemigo_actual g' = Some (enemigos g ! k) \<and> current_state g' = COMBATE \<and>
        turno_jugador g' \<and> \<not> animando g' \<and> resultado g' = None \<and>
        enemigos g' = filter (\<lambda>r. r \<notin> set (take k (enemigos g)) \<or> vivo (objetos g r)) (enemigos g) \<and>
        (\<forall>m\<le>k. vivo (objetos g (enemigos g ! m)) \<longrightarrow>
           objetos g' (enemigos g ! m) = Enemigo_update dt (azar m) (objetos g (enemigos g ! m))) \<and>
        (\<forall>r. r \<notin> set (take (Suc k) (enemigos g)) \<or> \<not> vivo (objetos g r) \<longrightarrow>
           objetos g' r = objetos g r) \<and>
        (\<forall>r. vivo (objetos g' r) = vivo (objetos g r) \<and> hp (objetos g' r) = hp (objetos g r) \<and>
           atk (objetos g' r) = atk (objetos g r) \<and> defensa (objetos g' r) = defensa (objetos g r)) \<and>
        (k = 1 \<and> length (enemigos g) = 2 \<and> vivo (objetos g (enemigos g ! 0)) \<longrightarrow>
           enemigos g' = enemigos g))) \<and>
    ((\<forall>m<length (enemigos g). vivo (objetos g (enemigos g ! m)) \<longrightarrow>
        \<not> colliderect (rect (mover_segun_teclas dt g j0))
            (rect (Enemigo_update dt (azar m) (objetos g (enemigos g ! m))))) \<longrightarrow>
     (\<exists>g'. JugandoState_update dt azar g = Inr g' \<and>
        enemigo_actual g' = enemigo_actual g \<and> current_state g' = JUGANDO \<and>
        enemigos g' = filter (\<lambda>r. vivo (objetos g r)) (enemigos g)))"
proof (intro conjI impI)
  let ?j = "mover_segun_teclas dt g j0"
  let ?g1 = "g\<lparr>jugador := Some ?j\<rparr>"
  have upd: "JugandoState_update dt azar g = actualizar_enemigos dt azar ?j 0 (enemigos g) ?g1"
    using assms(1) by (simp add: JugandoState_update_def Let_def)
  assume a: "k < length (enemigos g) \<and> vivo (objetos g (enemigos g ! k)) \<and>
     colliderect (rect ?j) (rect (Enemigo_update dt (azar k) (objetos g (enemigos g ! k)))) \<and>
     (\<forall>m<k. vivo (objetos g (enemigos g ! m)) \<longrightarrow>
        \<not> colliderect (rect ?j) (rect (Enemigo_update dt (azar m) (objetos g (enemigos g ! m)))))"
  have "\<exists>g'. actualizar_enemigos dt azar ?j 0 (enemigos g) ?g1 = Inr g' \<and>
      enemigo_actual g' = Some (enemigos g ! k) \<and> current_state g' = COMBATE \<and>
      enemigos g' = filter (\<lambda>r. r \<notin> set (take k (enemigos g)) \<or> vivo (objetos ?g1 r)) (enemigos ?g1) \<and>
      (\<forall>m\<le>k. vivo (objetos ?g1 (enemigos g ! m)) \<longrightarrow>
         objetos g' (enemigos g ! m) = Enemigo_update dt (azar (0 + m)) (objetos ?g1 (enemigos g ! m))) \<and>
      (\<forall>r. r \<notin> set (take (Suc k) (enemigos g)) \<or> \<not> vivo (objetos ?g1 r) \<longrightarrow> objetos g' r = objetos ?g1 r) \<and>
      jugador g' = jugador ?g1 \<and> turno_jugador g' \<and> \<not> animando g' \<and> resultado g' = None"
    using a assms(2,3) by (intro bucle_colision) simp_all
  then obtain g' where g': "JugandoState_update dt azar g = Inr g'"
      "enemigo_actual g' = Some (enemigos g ! k)" "current_state g' = COMBATE"
      "enemigos g' = filter (\<lambda>r. r \<notin> set (take k (enemigos g)) \<or> vivo (objetos g r)) (enemigos g)"
      "\<forall>m\<le>k. vivo (objetos g (enemigos g ! m)) \<longrightarrow>
         objetos g' (enemigos g ! m) = Enemigo_update dt (azar m) (objetos g (enemigos g ! m))"
      "\<forall>r. r \<notin> set (take (Suc k) (enemigos g)) \<or> \<not> vivo (objetos g r) \<longrightarrow> objetos g' r = objetos g r"
      "turno_jugador g'" "\<not> animando g'" "resultado g' = None"
    unfolding upd by auto
  have stats: "vivo (objetos g' r) = vivo (objetos g r) \<and> hp (objetos g' r) = hp (objetos g r) \<and>
           atk (objetos g' r) = atk (objetos g r) \<and> defensa (objetos g' r) = defensa (objetos g r)" for r
  proof (cases "r \<in> set (take (Suc k) (enemigos g)) \<and> vivo (objetos g r)")
    case True
    then obtain m where m: "m < length (take (Suc k) (enemigos g))" "take (Suc k) (enemigos g) ! m = r"
      by (auto simp add: in_set_conv_nth)
    then have "m \<le> k" "enemigos g ! m = r" by auto
    then have "objetos g' r = Enemigo_update dt (azar m) (objetos g r)"
      using g'(5) True by auto
    then show ?thesis by (simp add: Enemigo_update_stats)
  next
    case False
    then have "objetos g' r = objetos g r" using g'(6) by blast
    then show ?thesis by simp
  qed
  have two: "enemigos g' = enemigos g"
    if "k = 1 \<and> length (enemigos g) = 2 \<and> vivo (objetos g (enemigos g ! 0))"
  proof -
    have "length (enemigos g) = Suc (Suc 0)"
      using that by simp
    then obtain a b where ab: "enemigos g = [a, b]"
      by (auto simp add: length_Suc_conv)
    with that show ?thesis using g'(4) by auto
  qed
  show "\<exists>g'. JugandoState_update dt azar g = Inr g' \<and>
        enemigo_actual g' = Some (enemigos g ! k) \<and> current_state g' = COMBATE \<and>
        turno_jugador g' \<and> \<not> animando g' \<and> resultado g' = None \<and>
        enemigos g' = filter (\<lambda>r. r \<notin> set (take k (enemigos g)) \<or> vivo (objetos g r)) (enemigos g) \<and>
        (\<forall>m\<le>k. vivo (objetos g (enemigos g ! m)) \<longrightarrow>
           objetos g' (enemigos g ! m) = Enemigo_update dt (azar m) (objetos g (enemigos g ! m))) \<and>
        (\<forall>r. r \<notin> set (take (Suc k) (enemigos g)) \<or> \<not> vivo (objetos g r) \<longrightarrow>
           objetos g' r = objetos g r) \<and>
        (\<forall>r. vivo (objetos g' r) = vivo (objetos g r) \<and> hp (objetos g' r) = hp (objetos g r) \<and>
           atk (objetos g' r) = atk (objetos g r) \<and> defensa (objetos g' r) = defensa (objetos g r)) \<and>
        (k = 1 \<and> length (enemigos g) = 2 \<and> vivo (objetos g (enemigos g ! 0)) \<longrightarrow>
           enemigos g' = enemigos g)"
    using g' stats two by blast
next
  let ?j = "mover_segun_teclas dt g j0"
  let ?g1 = "g\<lparr>jugador := Some ?j\<rparr>"
  have upd: "JugandoState_update dt azar g = actualizar_enemigos dt azar ?j 0 (enemigos g) ?g1"
    using assms(1) by (simp add: JugandoState_update_def Let_def)
  assume a: "\<forall>m<length (enemigos g). vivo (objetos g (enemigos g ! m)) \<longrightarrow>
        \<not> colliderect (rect ?j) (rect (Enemigo_update dt (azar m) (objetos g (enemigos g ! m))))"
  have "\<exists>g'. actualizar_enemigos dt azar ?j 0 (enemigos g) ?g1 = Inr g' \<and>
      enemigo_actual g' = enemigo_actual ?g1 \<and> current_state g' = current_state ?g1 \<and>
      enemigos g' = filter (\<lambda>r. r \<notin> set (enemigos g) \<or> vivo (objetos ?g1 r)) (enemigos ?g1) \<and>
      jugador g' = jugador ?g1"
    using a assms(3) by (intro bucle_sin_colision) simp_all
  moreover have "filter (\<lambda>r. r \<notin> set (enemigos g) \<or> vivo (objetos g r)) (enemigos g) =
      filter (\<lambda>r. vivo (objetos g r)) (enemigos g)"
    by (auto intro: filter_cong)
  ultimately show "\<exists>g'. JugandoState_update dt azar g = Inr g' \<and>
        enemigo_actual g' = enemigo_actual g \<and> current_state g' = JUGANDO \<and>
        enemigos g' = filter (\<lambda>r. vivo (objetos g r)) (enemigos g)"
    unfolding upd using assms(2) by auto
qed

lemmas mundo =
  exploracion_def exploracion3_def azar_fijo_def entidades Timer_init_def Button_init_def
  JugandoState_update_def mover_segun_teclas_def mover_def Personaje_update_def
  Enemigo_update_def py_int_def colliderect_def Let_def change_state_def State_exit_def
  State_enter_def CombateState_enter_def recibir_dano_def morir_def

text \<open>
  The scenario of the specification: the wolf is away from the player and the bandit
  stands on the player; the bandit becomes the current enemy, the game is in combat and
  the roster still holds both enemies.
\<close>

theorem encounter_first_overlap_witness:
  "jugador exploracion = Some guerrero \<and> current_state exploracion = JUGANDO \<and>
   distinct (enemigos exploracion) \<and> 1 < length (enemigos exploracion) \<and>
   vivo (objetos exploracion (enemigos exploracion ! 0)) \<and>
   vivo (objetos exploracion (enemigos exploracion ! 1)) \<and>
   colliderect (rect (mover_segun_teclas (1 / 2) exploracion guerrero))
     (rect (Enemigo_update (1 / 2) (azar_fijo 1) (objetos exploracion (enemigos exploracion ! 1)))) \<and>
   \<not> colliderect (rect (mover_segun_teclas (1 / 2) exploracion guerrero))
     (rect (Enemigo_update (1 / 2) (azar_fijo 0) (objetos exploracion (enemigos exploracion ! 0)))) \<and>
   (\<exists>g'. JugandoState_update (1 / 2) azar_fijo exploracion = Inr g' \<and>
      enemigo_actual g' = Some (Suc 0) \<and> current_state g' = COMBATE \<and>
      enemigos g' = [0, Suc 0] \<and> hp (objetos g' 0) = 40 \<and> vivo (objetos g' 0))"
proof -
  have h: "jugador exploracion = Some guerrero" "current_state exploracion = JUGANDO"
    "distinct (enemigos exploracion)"
    by (simp_all add: exploracion_def)
  have e: "enemigos exploracion = [0, Suc 0]" "objetos exploracion 0 = lobo"
    "objetos exploracion (Suc 0) = bandido"
    by (simp_all add: exploracion_def)
  have v: "vivo lobo" "vivo bandido" "hp lobo = 40"
    by (simp_all add: entidades)
  have c: "colliderect (rect (mover_segun_teclas (1 / 2) exploracion guerrero))
     (rect (Enemigo_update (1 / 2) (azar_fijo 1) bandido))"
    "\<not> colliderect (rect (mover_segun_teclas (1 / 2) exploracion guerrero))
     (rect (Enemigo_update (1 / 2) (azar_fijo 0) lobo))"
    by (simp_all add: mundo)
  show ?thesis
    using h e v c encounter_first_overlap [OF h, of 1 "1 / 2" azar_fijo]
    by (auto simp add: less_Suc_eq)
qed

text \<open>
  A tick of half a second on the roster wolf, bandit, dead wolf, with the bandit on the
  player: the bandit becomes the current enemy, the dead wolf behind it is still in the
  roster after the tick, and the first wolf is not as it was: its own update has moved
  it from x = 100 to x = 125.
\<close>

theorem encounter_first_overlap_counterexample:
  "\<not> isl (JugandoState_update (1 / 2) azar_fijo exploracion3) \<and>
   enemigo_actual (projr (JugandoState_update (1 / 2) azar_fijo exploracion3)) = Some (Suc 0) \<and>
   current_state (projr (JugandoState_update (1 / 2) azar_fijo exploracion3)) = COMBATE \<and>
   enemigos (projr (JugandoState_update (1 / 2) azar_fijo exploracion3)) = [0, Suc 0, 2] \<and>
   \<not> vivo (objetos (projr (JugandoState_update (1 / 2) azar_fijo exploracion3)) 2) \<and>
   pos_x (objetos exploracion3 0) = 100 \<and>
   pos_x (objetos (projr (JugandoState_update (1 / 2) azar_fijo exploracion3)) 0) = 125 \<and>
   objetos (projr (JugandoState_update (1 / 2) azar_fijo exploracion3)) 0 \<noteq> objetos exploracion3 0"
  by (simp add: mundo)

section \<open>Resolution of a combat\<close>

lemma mover_vivo: "vivo (mover_segun_teclas dt g j) = vivo j"
  by (simp add: mover_segun_teclas_def mover_def Personaje_update_def Let_def)

lemma bucle_entra:
  "actualizar_enemigos dt azar j i refs g = Inr g' \<Longrightarrow> current_state g = JUGANDO \<Longrightarrow>
   current_state g' = COMBATE \<Longrightarrow>
   (\<exists>ref. enemigo_actual g' = Some ref \<and> vivo (objetos g' ref)) \<and> jugador g' = jugador g \<and>
   turno_jugador g' \<and> \<not> animando g' \<and> resultado g' = None"
proof (induction refs arbitrary: i g)
  case Nil
  then show ?case by simp
next
  case (Cons ref rest)
  show ?case
  proof (cases "vivo (objetos g ref)")
    case False
    then show ?thesis
      using Cons.IH [of "Suc i" "g\<lparr>enemigos := remove1 ref (enemigos g)\<rparr>"] Cons.prems by simp
  next
    case True
    show ?thesis
    proof (cases "colliderect (rect j) (rect (Enemigo_update dt (azar i) (objetos g ref)))")
      case True
      with \<open>vivo (objetos g ref)\<close> Cons.prems show ?thesis
        by (auto simp add: Let_def change_state_def State_exit_def State_enter_def
            CombateState_enter_def Enemigo_update_vivo)
    next
      case False
      with \<open>vivo (objetos g ref)\<close> show ?thesis
        using Cons.IH [of "Suc i" "g\<lparr>objetos := (objetos g)(ref := Enemigo_update dt (azar i) (objetos g ref))\<rparr>"]
          Cons.prems by (simp add: Let_def)
    qed
  qed
qed

lemma inv_entrada:
  assumes "jugador g = Some j" "vivo j" "current_state g = JUGANDO"
    "JugandoState_update dt azar g = Inr g'" "current_state g' = COMBATE"
  shows "combate_inv g'"
proof -
  let ?j = "mover_segun_teclas dt g j"
  have "actualizar_enemigos dt azar ?j 0 (enemigos g) (g\<lparr>jugador := Some ?j\<rparr>) = Inr g'"
    using assms(1,4) by (simp add: JugandoState_update_def Let_def)
  from bucle_entra [OF this _ assms(5)] assms(3)
  obtain ref where "enemigo_actual g' = Some ref" "vivo (objetos g' ref)" "jugador g' = Some ?j"
    "turno_jugador g'" "\<not> animando g'" "resultado g' = None"
    by auto
  then show ?thesis
    using assms(2,5) by (simp add: combate_inv_def mover_vivo)
qed

lemma usar_vivo: "vivo (snd (usar lower ob p)) = vivo p"
  by (simp add: usar_def curarse_def)

lemma usar_primer_consumible_campos:
  "jugador g = Some j \<Longrightarrow>
   current_state (usar_primer_consumible lower ticks j obs g) = current_state g \<and>
   enemigo_actual (usar_primer_consumible lower ticks j obs g) = enemigo_actual g \<and>
   objetos (usar_primer_consumible lower ticks j obs g) = objetos g \<and>
   turno_jugador (usar_primer_consumible lower ticks j obs g) = turno_jugador g \<and>
   resultado (usar_primer_consumible lower ticks j obs g) = resultado g \<and>
   (animando g \<longrightarrow> animando (usar_primer_consumible lower ticks j obs g)) \<and>
   (\<exists>j'. jugador (usar_primer_consumible lower ticks j obs g) = Some j' \<and> vivo j' = vivo j \<and>
      (\<not> animando (usar_primer_consumible lower ticks j obs g) \<longrightarrow> \<not> animando g))"
  by (induction obs) (simp_all add: Let_def usar_vivo)

lemma inv_evento:
  assumes "combate_inv g" "CombateState_handle_event lower ticks r ev g = Inr g'"
    "current_state g' = COMBATE"
  shows "combate_inv g'"
proof -
  obtain j ref where jr: "jugador g = Some j" "enemigo_actual g = Some ref"
    using assms(1) by (auto simp add: combate_inv_def split: option.splits)
  show ?thesis
  proof (cases "truthy (resultado g)")
    case True
    then show ?thesis
      using assms by (auto simp add: CombateState_handle_event_def change_state_def
          State_exit_def State_enter_def JugandoState_enter_def split: event.splits if_splits)
  next
    case False
    show ?thesis
    proof (cases "\<not> turno_jugador g \<or> animando g")
      case True
      with False assms show ?thesis by (simp add: CombateState_handle_event_def)
    next
      case nt: False
      then have both: "vivo j" "vivo (objetos g ref)"
        using assms(1) False jr by (simp_all add: combate_inv_def)
      show ?thesis
      proof (cases "is_clicked (attack_button g) ev")
        case True
        with False nt jr assms(2) both assms(1) show ?thesis
          by (auto simp add: CombateState_handle_event_def Let_def combate_inv_def Timer_start_def)
      next
        case na: False
        show ?thesis
        proof (cases "is_clicked (item_button g) ev")
          case True
          show ?thesis
          proof (cases "inventario j = []")
            case True
            with \<open>is_clicked (item_button g) ev\<close> na False nt jr assms show ?thesis
              by (auto simp add: CombateState_handle_event_def combate_inv_def)
          next
            case ne: False
            then have g': "g' = usar_primer_consumible lower ticks j (inventario j) g"
              using \<open>is_clicked (item_button g) ev\<close> na False nt jr assms(2)
              by (simp add: CombateState_handle_event_def)
            show ?thesis
              using usar_primer_consumible_campos [OF jr(1), of lower ticks "inventario j"]
                assms(1) jr both nt
              unfolding g' by (auto simp add: combate_inv_def)
          qed
        next
          case False
          with na \<open>\<not> truthy (resultado g)\<close> nt assms show ?thesis
            by (simp add: CombateState_handle_event_def)
        qed
      qed
    qed
  qed
qed

lemma truthy_resultados: "truthy (Some (u ''derrota''))" "truthy (Some (u ''victoria''))"
  by (simp_all add: truthy_def u_def)

lemma inv_tick:
  assumes "combate_inv g" "CombateState_update ticks mouse_pos r g = Inr g'"
  shows "combate_inv g'"
proof -
  obtain j ref where jr: "jugador g = Some j" "enemigo_actual g = Some ref"
    using assms(1) by (auto simp add: combate_inv_def split: option.splits)
  show ?thesis
  proof (cases "animando g")
    case False
    with assms jr show ?thesis
      by (auto simp add: CombateState_update_def combate_inv_def split: if_splits)
  next
    case an: True
    show ?thesis
    proof (cases "fst (Timer_update ticks (animation_timer g))")
      case False
      with an assms jr show ?thesis
        by (auto simp add: CombateState_update_def combate_inv_def Let_def)
    next
      case True
      from resolucion_paso [OF an True jr, of mouse_pos r] assms an jr
      show ?thesis
        by (auto simp add: combate_inv_def truthy_resultados soltar_recompensa_def
            Jugador_subir_nivel_def Let_def split: if_splits)
    qed
  qed
qed

lemma reach_inv: "reach g \<Longrightarrow> combate_inv g"
  by (induction rule: reach.induct) (auto intro: inv_entrada inv_evento inv_tick)

lemma never_both_dead:
  "reach g \<Longrightarrow> jugador g = Some j \<Longrightarrow> enemigo_actual g = Some ref \<Longrightarrow> vivo j \<or> vivo (objetos g ref)"
  using reach_inv [of g] by (simp add: combate_inv_def)

lemmas pasos = mundo encuentro0_def lobo_herido_def CombateState_update_def
  CombateState_handle_event_def truthy_def Button_update_def collidepoint_def
  Jugador_atacar_def Timer_start_def Timer_update_def str_int_def str_nat.simps

lemma encuentro1_paso: "JugandoState_update (1 / 2) azar_fijo encuentro0 = Inr encuentro1"
  "current_state encuentro1 = COMBATE"
  by (simp_all add: encuentro1_def pasos)

lemma encuentro2_paso: "CombateState_update 900 (500, 590) (1 / 2) encuentro1 = Inr encuentro2"
  by (simp add: encuentro2_def encuentro1_def pasos)

lemma encuentro3_paso: "CombateState_handle_event lower_latin1 1000 (1 / 2) (MOUSEBUTTONDOWN 1) encuentro2 = Inr encuentro3"
  "current_state encuentro3 = COMBATE"
  by (simp_all add: encuentro3_def encuentro2_def encuentro1_def pasos)

lemma reach_encuentro3: "reach encuentro3"
proof -
  have "reach encuentro1"
    by (rule reach.entrada [of encuentro0 "guerrero\<lparr>experiencia := 100\<rparr>" "1 / 2" azar_fijo])
      (simp_all add: encuentro1_paso, simp_all add: encuentro0_def exploracion_def entidades)
  then have "reach encuentro2"
    by (rule reach.tick) (rule encuentro2_paso)
  then show ?thesis
    by (rule reach.evento) (rule encuentro3_paso)+
qed

text \<open>
  C5.  On the combat resolution step (the animation delay expires) of a combat that a
  run can reach, where the enemy is dead: the result is \<open>"victoria"\<close>, the enemy's
  gold and experience are added to the player, and then, if the accumulated experience
  is at least \<open>nivel * 100\<close>, exactly one level-up is applied (level + 1, hp_max + 10,
  hp set to the new hp_max, atk + 2, defensa + 1) and the experience is set to 0,
  however far the threshold is exceeded; nothing else in the game changes.
\<close>

theorem victory_reward_single_level_up:
  assumes "reach g" "animando g" "fst (Timer_update ticks (animation_timer g))"
    "jugador g = Some j" "enemigo_actual g = Some ref" "\<not> vivo (objetos g ref)"
  shows "CombateState_update ticks mouse_pos r g =
     Inr (g\<lparr>animation_timer := (animation_timer g)\<lparr>active := False\<rparr>, animando := False,
            resultado := Some (u ''victoria''),
            jugador := Some
              (if experiencia j + rec_experiencia (recompensa (objetos g ref)) \<ge> nivel j * 100
               then j\<lparr>oro := oro j + rec_oro (recompensa (objetos g ref)),
                      nivel := nivel j + 1, hp_max := hp_max j + 10, hp := hp_max j + 10,
                      atk := atk j + 2, defensa := defensa j + 1, experiencia := 0\<rparr>
               else j\<lparr>oro := oro j + rec_oro (recompensa (objetos g ref)),
                      experiencia := experiencia j + rec_experiencia (recompensa (objetos g ref))\<rparr>)\<rparr>)"
proof -
  have "vivo j"
    using never_both_dead [OF assms(1,4,5)] assms(6) by simp
  then show ?thesis
    by (rule victoria_paso [OF assms(2,3,4) _ assms(5,6)])
qed

text \<open>
  The scenario of the specification: a level-1 warrior with 100 experience points kills
  the wolf, which grants 50 experience and 20 gold, and ends at level 2 with hp_max 130,
  hp 130 and experience 0.
\<close>

theorem victory_reward_single_level_up_witness:
  "reach encuentro3 \<and> animando encuentro3 \<and>
   fst (Timer_update 1500 (animation_timer encuentro3)) \<and>
   jugador encuentro3 = Some (guerrero\<lparr>experiencia := 100\<rparr>) \<and>
   enemigo_actual encuentro3 = Some 0 \<and> \<not> vivo (objetos encuentro3 0) \<and>
   nivel guerrero = 1 \<and> rec_experiencia (recompensa (objetos encuentro3 0)) = 50 \<and>
   CombateState_update 1500 (0, 0) (1 / 2) encuentro3 =
     Inr (encuentro3\<lparr>animation_timer := (animation_timer encuentro3)\<lparr>active := False\<rparr>,
            animando := False, resultado := Some (u ''victoria''),
            jugador := Some (guerrero\<lparr>oro := 120, nivel := 2, hp_max := 130, hp := 130,
                                       atk := 17, defensa := 11, experiencia := 0\<rparr>)\<rparr>)"
proof -
  have h: "animando encuentro3" "fst (Timer_update 1500 (animation_timer encuentro3))"
    "jugador encuentro3 = Some (guerrero\<lparr>experiencia := 100\<rparr>)"
    "enemigo_actual encuentro3 = Some 0" "\<not> vivo (objetos encuentro3 0)"
    by (simp_all add: encuentro3_def encuentro2_def encuentro1_def pasos)
  have v: "nivel guerrero = 1" "rec_experiencia (recompensa (objetos encuentro3 0)) = 50"
    "rec_oro (recompensa (objetos encuentro3 0)) = 20" "oro guerrero = 100"
    "hp_max guerrero = 120" "atk guerrero = 15" "defensa guerrero = 10"
    by (simp_all add: encuentro3_def encuentro2_def encuentro1_def pasos)
  show ?thesis
    using reach_encuentro3 h v victory_reward_single_level_up [OF reach_encuentro3 h, of "(0, 0)" "1 / 2"] by simp
qed

lemma asalto1_paso: "JugandoState_update (1 / 2) azar_fijo exploracion = Inr asalto1"
  "current_state asalto1 = COMBATE"
  by (simp_all add: asalto1_def pasos)

lemma asalto2_paso: "CombateState_update 900 (500, 590) (1 / 2) asalto1 = Inr asalto2"
  by (simp add: asalto2_def asalto1_def pasos)

lemma asalto3_paso: "CombateState_handle_event lower_latin1 1000 (1 / 2) (MOUSEBUTTONDOWN 1) asalto2 = Inr asalto3"
  "current_state asalto3 = COMBATE"
  by (simp_all add: asalto3_def asalto2_def asalto1_def pasos)

lemma reach_asalto3: "reach asalto3"
proof -
  have "reach asalto1"
    by (rule reach.entrada [of exploracion guerrero "1 / 2" azar_fijo])
      (simp_all add: asalto1_paso, simp_all add: exploracion_def entidades)
  then have "reach asalto2"
    by (rule reach.tick) (rule asalto2_paso)
  then show ?thesis
    by (rule reach.evento) (rule asalto3_paso)+
qed

text \<open>
  C8.  When the animation delay expires in a combat that a run can reach, the outcome
  is decided in this order: if the enemy is dead the result is \<open>"victoria"\<close> and the
  reward is granted; else if the player is dead the result is \<open>"derrota"\<close>; else if
  the delay followed the player's turn (both are alive), the turn passes to the enemy,
  whose attack on the player is computed at once, the message is set and the animation
  delay starts again at the current tick; otherwise the turn returns to the player.
  The code tests the player's flag before the enemy's; the two orders give the same
  outcome because the combatants are never both dead, which is the last conjunct.
\<close>

theorem resolution_order:
  assumes "reach g" "animando g" "fst (Timer_update ticks (animation_timer g))"
    "jugador g = Some j" "enemigo_actual g = Some ref"
  shows "CombateState_update ticks mouse_pos r g =
     (if \<not> vivo (objetos g ref) then
        Inr (g\<lparr>animation_timer := (animation_timer g)\<lparr>active := False\<rparr>, animando := False,
               resultado := Some (u ''victoria''),
               jugador := Some
                 (if experiencia (soltar_recompensa (objetos g ref) j) \<ge> nivel j * 100
                  then (Jugador_subir_nivel (soltar_recompensa (objetos g ref) j))\<lparr>experiencia := 0\<rparr>
                  else soltar_recompensa (objetos g ref) j)\<rparr>)
      else if \<not> vivo j then
        Inr (g\<lparr>animation_timer := (animation_timer g)\<lparr>active := False\<rparr>, animando := False,
               resultado := Some (u ''derrota'')\<rparr>)
      else if turno_jugador g then
        Inr (g\<lparr>turno_jugador := False,
               jugador := Some (fst (snd (Enemigo_atacar r (objetos g ref) j))),
               consola := consola g @ snd (snd (Enemigo_atacar r (objetos g ref) j)),
               mensaje := nombre (objetos g ref) @ u '' ataca causando ''
                            @ str_int (fst (Enemigo_atacar r (objetos g ref) j))
                            @ u '' de da'' @ [241] @ u ''o!'',
               animando := True,
               animation_timer := (animation_timer g)\<lparr>start_time := ticks, active := True\<rparr>\<rparr>)
      else
        Inr (g\<lparr>animation_timer := (animation_timer g)\<lparr>active := False\<rparr>, animando := False,
               turno_jugador := True\<rparr>)) \<and>
     (vivo j \<or> vivo (objetos g ref))"
proof -
  have nb: "vivo j \<or> vivo (objetos g ref)"
    by (rule never_both_dead [OF assms(1,4,5)])
  show ?thesis
    using nb resolucion_paso [OF assms(2,3,4,5), of mouse_pos r] by auto
qed

text \<open>
  The warrior has hit the bandit, who is left with 47 hp; when the delay expires the
  bandit strikes back for 10 and the delay starts again.
\<close>

theorem resolution_order_witness:
  "reach asalto3 \<and> animando asalto3 \<and> fst (Timer_update 1500 (animation_timer asalto3)) \<and>
   jugador asalto3 = Some guerrero \<and> enemigo_actual asalto3 = Some (Suc 0) \<and>
   vivo guerrero \<and> vivo (objetos asalto3 (Suc 0)) \<and> hp (objetos asalto3 (Suc 0)) = 47 \<and>
   turno_jugador asalto3 \<and>
   CombateState_update 1500 (0, 0) (1 / 2) asalto3 =
     Inr (asalto3\<lparr>turno_jugador := False,
            jugador := Some (guerrero\<lparr>hp := 110, hit_flash_timer := 0.2\<rparr>),
            mensaje := u ''Bandido ataca causando 10 de da'' @ [241] @ u ''o!'',
            animation_timer := \<lparr>duration = 0.5, start_time = 1500, active = True\<rparr>\<rparr>)"
proof -
  have h: "animando asalto3" "fst (Timer_update 1500 (animation_timer asalto3))"
    "jugador asalto3 = Some guerrero" "enemigo_actual asalto3 = Some (Suc 0)"
    by (simp_all add: asalto3_def asalto2_def asalto1_def pasos)
  have v: "vivo guerrero" "vivo (objetos asalto3 (Suc 0))" "hp (objetos asalto3 (Suc 0)) = 47"
    "turno_jugador asalto3"
    by (simp_all add: asalto3_def asalto2_def asalto1_def pasos)
  have a: "Enemigo_atacar (1 / 2) (objetos asalto3 (Suc 0)) guerrero =
             (10, guerrero\<lparr>hp := 110, hit_flash_timer := 0.2\<rparr>, [])"
    by (simp add: asalto3_def asalto2_def asalto1_def pasos Enemigo_atacar_def)
  have n: "nombre (objetos asalto3 (Suc 0)) = u ''Bandido''" "str_int 10 = u ''10''"
    by (simp_all add: asalto3_def asalto2_def asalto1_def pasos)
  have t: "animation_timer asalto3 = \<lparr>duration = 0.5, start_time = 1000, active = True\<rparr>"
    "consola asalto3 = []"
    by (simp_all add: asalto3_def asalto2_def asalto1_def pasos)
  show ?thesis
    using reach_asalto3 h v resolution_order [OF reach_asalto3 h, of "(0, 0)" "1 / 2"] by (simp add: a n t u_def)
qed

end
